theory Spec2Isabelle
  imports Complex_Main
begin

section \<open>Python values, exceptions and strings\<close>

text \<open>
  The module \<^verbatim>\<open>NEMO/utilities.py\<close> is a library of request helpers. Its functions
  receive Python values taken from an HTTP parameter dictionary and raise Python exceptions.
  Exceptions are values of the type \<open>exn\<close>; a function that can raise returns
  \<open>exn + 'a\<close>, with \<open>Inl\<close> for the exception. \<open>Exception msg\<close> is the plain
  \<^verbatim>\<open>Exception(msg)\<close> the module raises itself; the other constructors are the exceptions
  of the builtins and libraries it calls.
\<close>

datatype exn =
    Exception string
  | KeyError string
  | ValueError
  | TypeError
  | AttributeError
  | OverflowError
  | IndexError
  | ParserError
  | NonExistentTimeError
  | AmbiguousTimeError

text \<open>
  A finite Python float is a rational number (every IEEE double is one); the two
  infinities and NaN are separate values.
\<close>

datatype pyfloat = Finite rat | Infinity bool | NaN

datatype pyval =
    VNone
  | VBool bool
  | VInt int
  | VFloat pyfloat
  | VStr string

text \<open>
  Strings are lists of 8-bit characters, read as the code points below 256.
  \<open>is_space\<close> is \<^verbatim>\<open>str.isspace\<close> on these code points, \<open>strip\<close> is \<^verbatim>\<open>str.strip()\<close>.
\<close>

definition is_space :: "char \<Rightarrow> bool" where
  "is_space c =
     (let n = (of_char c :: nat)
      in (9 \<le> n \<and> n \<le> 13) \<or> (28 \<le> n \<and> n \<le> 32) \<or> n = 133 \<or> n = 160)"

definition strip :: "string \<Rightarrow> string" where
  "strip s = rev (dropWhile is_space (rev (dropWhile is_space s)))"

definition is_digit :: "char \<Rightarrow> bool" where
  "is_digit c = (let n = (of_char c :: nat) in 48 \<le> n \<and> n \<le> 57)"

definition digit_val :: "char \<Rightarrow> nat" where
  "digit_val c = (of_char c :: nat) - 48"

text \<open>\<^verbatim>\<open>str(n)\<close> for an integer: the decimal digits, with a minus sign when negative.\<close>

fun str_nat :: "nat \<Rightarrow> string" where
  "str_nat n =
     (if n < 10 then [char_of (48 + n)]
      else str_nat (n div 10) @ [char_of (48 + n mod 10)])"

declare str_nat.simps [simp del]

definition str_int :: "int \<Rightarrow> string" where
  "str_int i = (if i < 0 then CHR ''-'' # str_nat (nat (- i)) else str_nat (nat i))"

text \<open>
  \<^verbatim>\<open>int(s)\<close> on a string, base ten. The string is first brought to ASCII: a code
  point below 127 stays, the two spaces above it (133 and 160) become a blank, and any
  other code point becomes a question mark, which nothing reads. Then the ASCII
  whitespace (9 to 13 and 32) at both ends is skipped, one sign is allowed, and decimal
  digits follow, where single underscores may separate digits. So the separators 28 to
  31, which \<^verbatim>\<open>str.strip\<close> removes, are an error here.
  \<open>parse_digits acc cs\<close> reads the rest of the digits after a first digit. The limit
  on the number of digits that later interpreters put on this conversion (4300 by
  default) is not part of the model.
\<close>

definition to_ascii :: "char \<Rightarrow> char" where
  "to_ascii c =
     (let n = (of_char c :: nat)
      in if n < 127 then c else if n = 133 \<or> n = 160 then CHR '' '' else CHR ''?'')"

definition is_ascii_space :: "char \<Rightarrow> bool" where
  "is_ascii_space c = (let n = (of_char c :: nat) in (9 \<le> n \<and> n \<le> 13) \<or> n = 32)"

definition number_strip :: "string \<Rightarrow> string" where
  "number_strip s =
     rev (dropWhile is_ascii_space (rev (dropWhile is_ascii_space (map to_ascii s))))"

fun parse_digits :: "nat \<Rightarrow> string \<Rightarrow> nat option" where
  "parse_digits acc [] = Some acc"
| "parse_digits acc [c] = (if is_digit c then Some (acc * 10 + digit_val c) else None)"
| "parse_digits acc (c # d # ds) =
     (if is_digit c then parse_digits (acc * 10 + digit_val c) (d # ds)
      else if c = CHR ''_'' \<and> is_digit d then parse_digits (acc * 10 + digit_val d) ds
      else None)"

definition parse_unsigned :: "string \<Rightarrow> nat option" where
  "parse_unsigned s =
     (case s of
        [] \<Rightarrow> None
      | c # cs \<Rightarrow> if is_digit c then parse_digits (digit_val c) cs else None)"

definition int_of_str :: "string \<Rightarrow> int option" where
  "int_of_str s =
     (case number_strip s of
        [] \<Rightarrow> None
      | c # cs \<Rightarrow>
          if c = CHR ''-'' then map_option (\<lambda>n. - int n) (parse_unsigned cs)
          else if c = CHR ''+'' then map_option int (parse_unsigned cs)
          else map_option int (parse_unsigned (c # cs)))"

text \<open>\<^verbatim>\<open>int(x)\<close> truncates a float towards zero and raises on the infinities and NaN.\<close>

definition trunc_rat :: "rat \<Rightarrow> int" where
  "trunc_rat q = (if 0 \<le> q then \<lfloor>q\<rfloor> else - \<lfloor>- q\<rfloor>)"

fun py_int :: "pyval \<Rightarrow> exn + int" where
  "py_int VNone = Inl TypeError"
| "py_int (VBool b) = Inr (if b then 1 else 0)"
| "py_int (VInt i) = Inr i"
| "py_int (VFloat (Finite q)) = Inr (trunc_rat q)"
| "py_int (VFloat (Infinity _)) = Inl OverflowError"
| "py_int (VFloat NaN) = Inl ValueError"
| "py_int (VStr s) = (case int_of_str s of None \<Rightarrow> Inl ValueError | Some i \<Rightarrow> Inr i)"

text \<open>
  Sequencing: \<open>and_then r f\<close> continues with \<open>f\<close> on the value of \<open>r\<close> and stops at
  its exception, as one statement after another does. \<open>or_raise r e\<close> is a block
  \<^verbatim>\<open>try: r except: raise e\<close>, which replaces whatever \<open>r\<close> raises by \<open>e\<close>.
\<close>

definition and_then :: "exn + 'a \<Rightarrow> ('a \<Rightarrow> exn + 'b) \<Rightarrow> exn + 'b" where
  "and_then r f = (case r of Inl e \<Rightarrow> Inl e | Inr v \<Rightarrow> f v)"

definition or_raise :: "exn + 'a \<Rightarrow> exn \<Rightarrow> exn + 'a" where
  "or_raise r e = (case r of Inl _ \<Rightarrow> Inl e | Inr v \<Rightarrow> Inr v)"

definition lookup :: "(string \<rightharpoonup> pyval) \<Rightarrow> string \<Rightarrow> exn + pyval" where
  "lookup d k = (case d k of None \<Rightarrow> Inl (KeyError k) | Some v \<Rightarrow> Inr v)"

section \<open>Quiet conversion and parameter strings\<close>

text \<open>
  \<^verbatim>\<open>quiet_int(value_to_convert, default_upon_failure=0)\<close>: the result starts as the
  default, the conversion overwrites it, and a bare \<^verbatim>\<open>except\<close> discards whatever the
  conversion raises.
\<close>

definition quiet_int :: "pyval \<Rightarrow> pyval \<Rightarrow> pyval" where
  "quiet_int value_to_convert default_upon_failure =
     (case py_int value_to_convert of
        Inr i \<Rightarrow> VInt i
      | Inl _ \<Rightarrow> default_upon_failure)"

text \<open>
  \<^verbatim>\<open>parse_parameter_string\<close>: the dictionary lookup raises \<^verbatim>\<open>KeyError\<close> on a missing
  key, \<^verbatim>\<open>.strip()\<close> raises \<^verbatim>\<open>AttributeError\<close> on a value that is not a string, and the
  length check is guarded by \<^verbatim>\<open>raise_on_error\<close>. The handler re-raises when
  \<^verbatim>\<open>raise_on_error\<close> is set and returns the default otherwise.
\<close>

definition too_long_message :: "string \<Rightarrow> nat \<Rightarrow> int \<Rightarrow> string" where
  "too_long_message parameter_key n maximum_length =
     ''The parameter named '' @ parameter_key @ '' is '' @ str_nat n
       @ '' characters long, exceeding the maximum length of '' @ str_int maximum_length
       @ '' characters.''"

definition parse_parameter_string ::
  "(string \<rightharpoonup> pyval) \<Rightarrow> string \<Rightarrow> int \<Rightarrow> bool \<Rightarrow> pyval \<Rightarrow> exn + pyval" where
  "parse_parameter_string parameter_dictionary parameter_key maximum_length raise_on_error
       default_return =
     (let attempt =
        and_then (lookup parameter_dictionary parameter_key) (\<lambda>v.
          case v of
            VStr s \<Rightarrow>
              (let parameter = strip s
               in if raise_on_error \<and> int (length parameter) > maximum_length
                  then Inl (Exception
                         (too_long_message parameter_key (length parameter) maximum_length))
                  else Inr (VStr parameter))
          | _ \<Rightarrow> Inl AttributeError)
      in case attempt of
           Inr v \<Rightarrow> Inr v
         | Inl e \<Rightarrow> if raise_on_error then Inl e else Inr default_return)"

section \<open>Dates and times\<close>

text \<open>
  A \<^verbatim>\<open>datetime\<close> has the seven wall-clock fields and an optional \<^verbatim>\<open>tzinfo\<close>. The
  timezone objects attached by the module are the fixed-offset instances that pytz
  attaches, so \<open>tzinfo\<close> is the UTC offset in seconds; \<open>None\<close> is a naive datetime.
\<close>

record datetime =
  year :: int
  month :: int
  day :: int
  hour :: int
  minute :: int
  second :: int
  microsecond :: int
  tzinfo :: "int option"

text \<open>The proleptic Gregorian calendar of Python's \<^verbatim>\<open>datetime\<close> and \<^verbatim>\<open>calendar\<close>.\<close>

definition isleap :: "int \<Rightarrow> bool" where
  "isleap y = (y mod 4 = 0 \<and> (y mod 100 \<noteq> 0 \<or> y mod 400 = 0))"

definition mdays :: "int \<Rightarrow> int" where
  "mdays m =
     (if m = 2 then 28
      else if m = 4 \<or> m = 6 \<or> m = 9 \<or> m = 11 then 30
      else 31)"

definition days_in_month :: "int \<Rightarrow> int \<Rightarrow> int" where
  "days_in_month y m = (if m = 2 \<and> isleap y then 29 else mdays m)"

definition days_before_year :: "int \<Rightarrow> int" where
  "days_before_year y =
     (let z = y - 1 in z * 365 + z div 4 - z div 100 + z div 400)"

definition days_before_month_common :: "int \<Rightarrow> int" where
  "days_before_month_common m =
     (if m = 1 then 0 else if m = 2 then 31 else if m = 3 then 59 else if m = 4 then 90
      else if m = 5 then 120 else if m = 6 then 151 else if m = 7 then 181
      else if m = 8 then 212 else if m = 9 then 243 else if m = 10 then 273
      else if m = 11 then 304 else 334)"

definition days_before_month :: "int \<Rightarrow> int \<Rightarrow> int" where
  "days_before_month y m =
     days_before_month_common m + (if m > 2 \<and> isleap y then 1 else 0)"

definition ymd2ord :: "int \<Rightarrow> int \<Rightarrow> int \<Rightarrow> int" where
  "ymd2ord y m d = days_before_year y + days_before_month y m + d"

text \<open>
  \<open>ord2ymd\<close> inverts \<open>ymd2ord\<close> the way \<^verbatim>\<open>datetime\<close> does: 400-, 100-, 4- and 1-year
  cycles, then an estimate of the month that is corrected downwards when too large.
\<close>

definition ord2ymd :: "int \<Rightarrow> int \<times> int \<times> int" where
  "ord2ymd n0 =
     (let n = n0 - 1;
          n400 = n div 146097; n = n mod 146097;
          n100 = n div 36524; n = n mod 36524;
          n4 = n div 1461; n = n mod 1461;
          n1 = n div 365; n = n mod 365;
          y = n400 * 400 + 1 + n100 * 100 + n4 * 4 + n1
      in if n1 = 4 \<or> n100 = 4 then (y - 1, 12, 31)
         else
           (let leapyear = (n1 = 3 \<and> (n4 \<noteq> 24 \<or> n100 = 3));
                m = (n + 50) div 32;
                preceding = days_before_month_common m + (if m > 2 \<and> leapyear then 1 else 0)
            in if preceding > n
               then (let m' = m - 1;
                         preceding' = preceding
                            - (mdays m' + (if m' = 2 \<and> leapyear then 1 else 0))
                     in (y, m', n - preceding' + 1))
               else (y, m, n - preceding + 1)))"

definition MINYEAR :: int where "MINYEAR = 1"
definition MAXYEAR :: int where "MAXYEAR = 9999"
definition MAXORDINAL :: int where "MAXORDINAL = 3652059"

text \<open>The constructor \<^verbatim>\<open>datetime(y, m, d, hh, mm, ss, us)\<close> checks every field.\<close>

definition valid_date :: "int \<Rightarrow> int \<Rightarrow> int \<Rightarrow> bool" where
  "valid_date y m d =
     (MINYEAR \<le> y \<and> y \<le> MAXYEAR \<and> 1 \<le> m \<and> m \<le> 12 \<and> 1 \<le> d \<and> d \<le> days_in_month y m)"

definition valid_time :: "int \<Rightarrow> int \<Rightarrow> int \<Rightarrow> int \<Rightarrow> bool" where
  "valid_time hh mm ss us =
     (0 \<le> hh \<and> hh \<le> 23 \<and> 0 \<le> mm \<and> mm \<le> 59 \<and> 0 \<le> ss \<and> ss \<le> 59 \<and> 0 \<le> us \<and> us \<le> 999999)"

definition naive :: "int \<Rightarrow> int \<Rightarrow> int \<Rightarrow> int \<Rightarrow> int \<Rightarrow> int \<Rightarrow> int \<Rightarrow> datetime" where
  "naive y m d hh mm ss us =
     \<lparr>year = y, month = m, day = d, hour = hh, minute = mm, second = ss,
      microsecond = us, tzinfo = None\<rparr>"

definition mk_datetime ::
  "int \<Rightarrow> int \<Rightarrow> int \<Rightarrow> int \<Rightarrow> int \<Rightarrow> int \<Rightarrow> int \<Rightarrow> exn + datetime" where
  "mk_datetime y m d hh mm ss us =
     (if valid_date y m d \<and> valid_time hh mm ss us then Inr (naive y m d hh mm ss us)
      else Inl ValueError)"

definition valid_datetime :: "datetime \<Rightarrow> bool" where
  "valid_datetime t =
     (valid_date (year t) (month t) (day t)
      \<and> valid_time (hour t) (minute t) (second t) (microsecond t))"

text \<open>
  \<open>wall_micros\<close> is the wall-clock reading in microseconds since the start of ordinal
  day 0; \<open>utc_micros\<close> subtracts the UTC offset of an aware datetime.
\<close>

definition toordinal :: "datetime \<Rightarrow> int" where
  "toordinal t = ymd2ord (year t) (month t) (day t)"

definition wall_micros :: "datetime \<Rightarrow> int" where
  "wall_micros t =
     ((toordinal t * 86400 + hour t * 3600 + minute t * 60 + second t) * 1000000)
       + microsecond t"

definition utc_micros :: "datetime \<Rightarrow> int" where
  "utc_micros t = wall_micros t - (case tzinfo t of None \<Rightarrow> 0 | Some off \<Rightarrow> off * 1000000)"

text \<open>
  \<^verbatim>\<open>a < b\<close> on datetimes: two naive values compare by their fields, two aware values by
  their UTC instants, and a naive value against an aware one raises \<^verbatim>\<open>TypeError\<close>.
\<close>

definition dt_less :: "datetime \<Rightarrow> datetime \<Rightarrow> exn + bool" where
  "dt_less a b =
     (case (tzinfo a, tzinfo b) of
        (None, None) \<Rightarrow> Inr (wall_micros a < wall_micros b)
      | (Some _, Some _) \<Rightarrow> Inr (utc_micros a < utc_micros b)
      | _ \<Rightarrow> Inl TypeError)"

text \<open>
  \<^verbatim>\<open>timedelta(days, seconds, microseconds)\<close> is its total in microseconds.
  \<^verbatim>\<open>t + delta\<close> adds to the wall-clock reading, keeps the \<^verbatim>\<open>tzinfo\<close> and raises
  \<^verbatim>\<open>OverflowError\<close> when the day leaves the ordinals \<open>1 .. MAXORDINAL\<close>.
\<close>

definition timedelta :: "int \<Rightarrow> int \<Rightarrow> int \<Rightarrow> int" where
  "timedelta days seconds microseconds = (days * 86400 + seconds) * 1000000 + microseconds"

definition from_wall_micros :: "int \<Rightarrow> int option \<Rightarrow> datetime" where
  "from_wall_micros w tz =
     (let days = w div 86400000000; r = w mod 86400000000;
          secs = r div 1000000; us = r mod 1000000;
          (y, m, d) = ord2ymd days
      in \<lparr>year = y, month = m, day = d, hour = secs div 3600,
          minute = (secs mod 3600) div 60, second = secs mod 60,
          microsecond = us, tzinfo = tz\<rparr>)"

definition dt_add :: "datetime \<Rightarrow> int \<Rightarrow> exn + datetime" where
  "dt_add t delta =
     (let w = wall_micros t + delta; days = w div 86400000000
      in if 0 < days \<and> days \<le> MAXORDINAL then Inr (from_wall_micros w (tzinfo t))
         else Inl OverflowError)"

text \<open>\<^verbatim>\<open>calendar.monthrange(year, month)\<close>: the weekday of the first and the day count.\<close>

definition weekday_of :: "int \<Rightarrow> int \<Rightarrow> int \<Rightarrow> int" where
  "weekday_of y m d = (ymd2ord y m d + 6) mod 7"

definition monthrange :: "int \<Rightarrow> int \<Rightarrow> exn + (int \<times> int)" where
  "monthrange y m =
     (if \<not> (1 \<le> m \<and> m \<le> 12) then Inl ValueError
      else
        (let y' = (if MINYEAR \<le> y \<and> y \<le> MAXYEAR then y else 2000 + y mod 400)
         in Inr (weekday_of y' m 1, mdays m + (if m = 2 \<and> isleap y then 1 else 0))))"

section \<open>Timezones\<close>

text \<open>
  A pytz timezone is an external object. The module uses three of its capabilities:
  \<^item> \<open>tz_localize z t\<close>: \<^verbatim>\<open>z.localize(t)\<close> on a naive \<open>t\<close> with pytz's default
    \<^verbatim>\<open>is_dst=False\<close>: the UTC offset in seconds that is attached to the wall-clock
    reading, or \<open>None\<close> where pytz raises (its arithmetic overflows next to
    \<^verbatim>\<open>datetime.min\<close> and \<^verbatim>\<open>datetime.max\<close>);
  \<^item> \<open>tz_localize_strict z t\<close>: the same with \<^verbatim>\<open>is_dst=None\<close>, as Django's
    \<^verbatim>\<open>make_aware\<close> calls it: the offset, or the exception pytz raises, which is
    \<^verbatim>\<open>NonExistentTimeError\<close> or \<^verbatim>\<open>AmbiguousTimeError\<close> on a wall-clock reading that
    is missing or double at a daylight-saving transition;
  \<^item> \<open>tz_utcoffset z u\<close>: the UTC offset in force at the UTC instant \<open>u\<close>
    (microseconds), which \<^verbatim>\<open>astimezone\<close> uses.
\<close>

record timezone =
  tz_localize :: "datetime \<Rightarrow> int option"
  tz_localize_strict :: "datetime \<Rightarrow> exn + int"
  tz_utcoffset :: "int \<Rightarrow> int"

definition pytz_localize :: "timezone \<Rightarrow> datetime \<Rightarrow> exn + datetime" where
  "pytz_localize z t =
     (if tzinfo t \<noteq> None then Inl ValueError
      else case tz_localize z t of
             None \<Rightarrow> Inl OverflowError
           | Some off \<Rightarrow> Inr (t\<lparr>tzinfo := Some off\<rparr>))"

definition make_aware :: "datetime \<Rightarrow> timezone \<Rightarrow> exn + datetime" where
  "make_aware t z =
     (if tzinfo t \<noteq> None then Inl ValueError
      else case tz_localize_strict z t of
             Inl e \<Rightarrow> Inl e
           | Inr off \<Rightarrow> Inr (t\<lparr>tzinfo := Some off\<rparr>))"

text \<open>
  \<^verbatim>\<open>localize(dt, tz=None)\<close>: \<^verbatim>\<open>tz or timezone.get_current_timezone()\<close>, then
  \<^verbatim>\<open>tz.localize\<close> on the value, or on every element when the value is a list. The first
  argument of the model is the process timezone. \<open>localize\<close> is the branch for a single
  datetime, \<open>localize_list\<close> the branch for a list; the list comprehension stops at
  the first element that raises.
\<close>

definition localize :: "timezone \<Rightarrow> datetime \<Rightarrow> timezone option \<Rightarrow> exn + datetime" where
  "localize current dt tz =
     pytz_localize (case tz of None \<Rightarrow> current | Some z \<Rightarrow> z) dt"

fun localize_each :: "timezone \<Rightarrow> datetime list \<Rightarrow> exn + datetime list" where
  "localize_each z [] = Inr []"
| "localize_each z (d # ds) =
     and_then (pytz_localize z d) (\<lambda>d'.
     and_then (localize_each z ds) (\<lambda>ds'. Inr (d' # ds')))"

definition localize_list ::
  "timezone \<Rightarrow> datetime list \<Rightarrow> timezone option \<Rightarrow> exn + datetime list" where
  "localize_list current dts tz =
     localize_each (case tz of None \<Rightarrow> current | Some z \<Rightarrow> z) dts"

section \<open>The functions of the module\<close>

subsection \<open>Free-text ranges\<close>

text \<open>
  \<^verbatim>\<open>parse_start_and_end_date(start, end)\<close>. The dateutil parser is external: \<open>parse\<close>
  is \<^verbatim>\<open>parser.parse\<close>, returning the datetime it reads or the exception it raises.
  \<open>current\<close> is \<^verbatim>\<open>timezone.get_current_timezone()\<close>. The end is moved by
  \<^verbatim>\<open>timedelta(days=1, seconds=-1)\<close>; nothing compares the two results.
\<close>

definition parse_start_and_end_date ::
  "(string \<Rightarrow> exn + datetime) \<Rightarrow> timezone \<Rightarrow> string \<Rightarrow> string
     \<Rightarrow> exn + (datetime \<times> datetime)" where
  "parse_start_and_end_date parse current start end =
     and_then (parse start) (\<lambda>s0.
     and_then (make_aware s0 current) (\<lambda>s.
     and_then (parse end) (\<lambda>e0.
     and_then (make_aware e0 current) (\<lambda>e1.
     and_then (dt_add e1 (timedelta 1 (- 1) 0)) (\<lambda>e2.
     Inr (s, e2))))))"

subsection \<open>Month lists\<close>

text \<open>
  \<^verbatim>\<open>rrule(MONTHLY, dtstart=since, count=n)\<close> of dateutil: starting in the month of
  \<^verbatim>\<open>dtstart\<close> and advancing one month at a time, it yields the day of \<^verbatim>\<open>dtstart\<close> in
  every month that has such a day, with the time of \<^verbatim>\<open>dtstart\<close> cut to whole seconds,
  until \<open>n\<close> values are out or the year passes \<open>MAXYEAR\<close>. A count below one yields
  nothing.
\<close>

function rrule_monthly :: "int \<Rightarrow> int \<Rightarrow> datetime \<Rightarrow> int \<Rightarrow> datetime list" where
  "rrule_monthly y m dtstart n =
     (if n \<le> 0 \<or> y > MAXYEAR then []
      else
        (let y' = (if m \<ge> 12 then y + 1 else y); m' = (if m \<ge> 12 then 1 else m + 1)
         in if day dtstart \<le> days_in_month y m
            then dtstart\<lparr>year := y, month := m, microsecond := 0\<rparr>
                   # rrule_monthly y' m' dtstart (n - 1)
            else rrule_monthly y' m' dtstart n))"
  by pat_completeness auto
termination
  by (relation "measure (\<lambda>(y, m, dtstart, n). nat ((MAXYEAR + 1 - y) * 12 + (12 - min m 12)))")
     (auto simp: MAXYEAR_def)

declare rrule_monthly.simps [simp del]

text \<open>
  \<^verbatim>\<open>month_list(since)\<close>. \<^verbatim>\<open>timezone.now()\<close> is read twice, once for the year and once
  for the month: \<open>now1\<close> and \<open>now2\<close> are the two readings.
\<close>

definition month_list ::
  "timezone \<Rightarrow> datetime \<Rightarrow> datetime \<Rightarrow> datetime \<Rightarrow> exn + datetime list" where
  "month_list current now1 now2 since =
     (let month_count = (year now1 - year since) * 12 + (month now2 - month since) + 1;
          result = rrule_monthly (year since) (month since) since month_count
      in and_then (localize_list current result None) (\<lambda>result'. Inr (rev result')))"

definition default_since :: datetime where
  "default_since = naive 2013 11 1 0 0 0 0"

subsection \<open>Month time frames\<close>

text \<open>
  \<^verbatim>\<open>get_month_timeframe(date=None)\<close>. \<^verbatim>\<open>if date\<close> is false for \<^verbatim>\<open>None\<close> and for
  the empty string; \<open>parse\<close> is dateutil's \<^verbatim>\<open>parse\<close>, \<open>now\<close> is \<^verbatim>\<open>timezone.now()\<close>.
\<close>

definition get_month_timeframe ::
  "(string \<Rightarrow> exn + datetime) \<Rightarrow> timezone \<Rightarrow> datetime \<Rightarrow> string option
     \<Rightarrow> exn + (datetime \<times> datetime)" where
  "get_month_timeframe parse current now date =
     and_then (case date of
                 None \<Rightarrow> Inr now
               | Some s \<Rightarrow> if s = [] then Inr now else parse s) (\<lambda>start.
     and_then (mk_datetime (year start) (month start) 1 0 0 0 0) (\<lambda>d1.
     and_then (localize current d1 None) (\<lambda>first_of_the_month.
     and_then (monthrange (year start) (month start)) (\<lambda>wd_ndays.
     and_then (mk_datetime (year start) (month start) (snd wd_ndays) 23 59 59 0) (\<lambda>d2.
     and_then (localize current d2 None) (\<lambda>last_of_the_month.
     Inr (first_of_the_month, last_of_the_month)))))))"

subsection \<open>Ranges of UNIX timestamps\<close>

text \<open>The five messages of the range extractors.\<close>

definition msg_no_start :: string where
  "msg_no_start = ''The request parameters did not contain a start time.''"

definition msg_no_end :: string where
  "msg_no_end = ''The request parameters did not contain an end time.''"

definition msg_bad_start :: string where
  "msg_bad_start = ''The request parameters did not have a valid start time.''"

definition msg_bad_end :: string where
  "msg_bad_end = ''The request parameters did not have a valid end time.''"

definition msg_inverted :: string where
  "msg_inverted =
     ''The request parameters have an end time that precedes the start time.''"

text \<open>
  The body of each conversion block of \<^verbatim>\<open>extract_times\<close>: \<^verbatim>\<open>float(x)\<close>, then
  \<^verbatim>\<open>datetime.utcfromtimestamp\<close>, then \<^verbatim>\<open>localize(_, input_timezone)\<close>. The builtin
  \<^verbatim>\<open>float\<close> and \<^verbatim>\<open>utcfromtimestamp\<close> are external and round in floating point, so the
  model takes them as the parameters \<open>to_float\<close> and \<open>utcfromtimestamp\<close>.
\<close>

definition timestamp_to_local ::
  "(pyval \<Rightarrow> exn + pyfloat) \<Rightarrow> (pyfloat \<Rightarrow> exn + datetime) \<Rightarrow> timezone
     \<Rightarrow> timezone option \<Rightarrow> pyval \<Rightarrow> exn + datetime" where
  "timestamp_to_local to_float utcfromtimestamp current input_timezone x =
     and_then (to_float x) (\<lambda>f.
     and_then (utcfromtimestamp f) (\<lambda>t.
     localize current t input_timezone))"

definition extract_times ::
  "(pyval \<Rightarrow> exn + pyfloat) \<Rightarrow> (pyfloat \<Rightarrow> exn + datetime) \<Rightarrow> timezone
     \<Rightarrow> (string \<rightharpoonup> pyval) \<Rightarrow> timezone option \<Rightarrow> exn + (datetime \<times> datetime)" where
  "extract_times to_float utcfromtimestamp current parameters input_timezone =
     and_then (or_raise (lookup parameters ''start'') (Exception msg_no_start)) (\<lambda>start.
     and_then (or_raise (lookup parameters ''end'') (Exception msg_no_end)) (\<lambda>end.
     and_then (or_raise
         (timestamp_to_local to_float utcfromtimestamp current input_timezone start)
         (Exception msg_bad_start)) (\<lambda>start'.
     and_then (or_raise
         (timestamp_to_local to_float utcfromtimestamp current input_timezone end)
         (Exception msg_bad_end)) (\<lambda>end'.
     and_then (dt_less end' start') (\<lambda>precedes.
     if precedes then Inl (Exception msg_inverted) else Inr (start', end'))))))"

subsection \<open>Ranges of calendar dates\<close>

text \<open>
  \<^verbatim>\<open>datetime.strptime(s, '%Y-%m-%d')\<close>. The format compiles to the regular expression
  \<^verbatim>\<open>(\d\d\d\d)-(1[0-2]|0[1-9]|[1-9])-(3[0-1]|[1-2]\d|0[1-9]|[1-9]| [1-9])\<close>, matched at
  the start of the string with the alternatives tried in this order; text left after
  the match is an error, and so is a date the calendar does not have.
  \<open>month_alts\<close> and \<open>day_alts\<close> list, in order, the ways a group matches a prefix:
  the number read and the rest of the string.
\<close>

definition in_range :: "char \<Rightarrow> char \<Rightarrow> char \<Rightarrow> bool" where
  "in_range lo hi c = ((of_char lo :: nat) \<le> of_char c \<and> (of_char c :: nat) \<le> of_char hi)"

definition month_alts :: "string \<Rightarrow> (int \<times> string) list" where
  "month_alts s =
     (case s of
        a # b # r \<Rightarrow>
          (if a = CHR ''1'' \<and> in_range CHR ''0'' CHR ''2'' b
           then [(10 + int (digit_val b), r)] else [])
          @ (if a = CHR ''0'' \<and> in_range CHR ''1'' CHR ''9'' b
             then [(int (digit_val b), r)] else [])
      | _ \<Rightarrow> [])
     @ (case s of
          a # r \<Rightarrow> if in_range CHR ''1'' CHR ''9'' a then [(int (digit_val a), r)] else []
        | _ \<Rightarrow> [])"

definition day_alts :: "string \<Rightarrow> (int \<times> string) list" where
  "day_alts s =
     (case s of
        a # b # r \<Rightarrow>
          (if a = CHR ''3'' \<and> in_range CHR ''0'' CHR ''1'' b
           then [(30 + int (digit_val b), r)] else [])
          @ (if in_range CHR ''1'' CHR ''2'' a \<and> is_digit b
             then [(int (digit_val a) * 10 + int (digit_val b), r)] else [])
          @ (if a = CHR ''0'' \<and> in_range CHR ''1'' CHR ''9'' b
             then [(int (digit_val b), r)] else [])
      | _ \<Rightarrow> [])
     @ (case s of
          a # r \<Rightarrow> if in_range CHR ''1'' CHR ''9'' a then [(int (digit_val a), r)] else []
        | _ \<Rightarrow> [])
     @ (case s of
          a # b # r \<Rightarrow>
            if a = CHR '' '' \<and> in_range CHR ''1'' CHR ''9'' b
            then [(int (digit_val b), r)] else []
        | _ \<Rightarrow> [])"

definition strptime_matches :: "string \<Rightarrow> (int \<times> int \<times> int \<times> string) list" where
  "strptime_matches s =
     (case s of
        y1 # y2 # y3 # y4 # dash # rest \<Rightarrow>
          if is_digit y1 \<and> is_digit y2 \<and> is_digit y3 \<and> is_digit y4 \<and> dash = CHR ''-''
          then
            (let y = int (digit_val y1) * 1000 + int (digit_val y2) * 100
                       + int (digit_val y3) * 10 + int (digit_val y4)
             in concat (map (\<lambda>(m, r).
                  (case r of
                     c # r' \<Rightarrow>
                       if c = CHR ''-'' then map (\<lambda>(d, r''). (y, m, d, r'')) (day_alts r')
                       else []
                   | [] \<Rightarrow> [])) (month_alts rest)))
          else []
      | _ \<Rightarrow> [])"

definition strptime_ymd :: "string \<Rightarrow> exn + datetime" where
  "strptime_ymd s =
     (case strptime_matches s of
        [] \<Rightarrow> Inl ValueError
      | (y, m, d, r) # _ \<Rightarrow> if r \<noteq> [] then Inl ValueError else mk_datetime y m d 0 0 0 0)"

text \<open>
  \<^verbatim>\<open>extract_date(date)\<close>; \<^verbatim>\<open>strptime\<close> raises \<^verbatim>\<open>TypeError\<close> on a value that is not a
  string. \<^verbatim>\<open>extract_dates(parameters)\<close> has the checks of \<^verbatim>\<open>extract_times\<close>.
\<close>

definition extract_date :: "timezone \<Rightarrow> pyval \<Rightarrow> exn + datetime" where
  "extract_date current date =
     (case date of
        VStr s \<Rightarrow> and_then (strptime_ymd s) (\<lambda>t. localize current t None)
      | _ \<Rightarrow> Inl TypeError)"

definition extract_dates ::
  "timezone \<Rightarrow> (string \<rightharpoonup> pyval) \<Rightarrow> exn + (datetime \<times> datetime)" where
  "extract_dates current parameters =
     and_then (or_raise (lookup parameters ''start'') (Exception msg_no_start)) (\<lambda>start.
     and_then (or_raise (lookup parameters ''end'') (Exception msg_no_end)) (\<lambda>end.
     and_then (or_raise (extract_date current start) (Exception msg_bad_start)) (\<lambda>start'.
     and_then (or_raise (extract_date current end) (Exception msg_bad_end)) (\<lambda>end'.
     and_then (dt_less end' start') (\<lambda>precedes.
     if precedes then Inl (Exception msg_inverted) else Inr (start', end'))))))"

subsection \<open>Formatting\<close>

text \<open>
  \<^verbatim>\<open>t.astimezone(z)\<close> on an aware \<open>t\<close>: the UTC instant of \<open>t\<close>, read on the wall
  clock of \<open>z\<close>. On a naive \<open>t\<close> Python reads \<open>t\<close> as system local time first;
  \<open>system\<close> is that timezone. A wall-clock reading outside the supported ordinals is
  an \<^verbatim>\<open>OverflowError\<close>.
\<close>

definition astimezone :: "timezone \<Rightarrow> timezone \<Rightarrow> datetime \<Rightarrow> exn + datetime" where
  "astimezone system z t =
     and_then (case tzinfo t of
                 Some off \<Rightarrow> Inr (utc_micros t)
               | None \<Rightarrow> (case tz_localize system t of
                            None \<Rightarrow> Inl OverflowError
                          | Some off \<Rightarrow> Inr (wall_micros t - off * 1000000))) (\<lambda>u.
       (let off = tz_utcoffset z u; w = u + off * 1000000; days = w div 86400000000
        in if 0 < days \<and> days \<le> MAXORDINAL then Inr (from_wall_micros w (Some off))
           else Inl OverflowError))"

text \<open>\<^verbatim>\<open>xs[i]\<close>: a negative index counts from the end, an index out of range raises.\<close>

definition py_index :: "'a list \<Rightarrow> int \<Rightarrow> exn + 'a" where
  "py_index xs i =
     (if 0 \<le> i \<and> i < int (length xs) then Inr (xs ! nat i)
      else if i < 0 \<and> - int (length xs) \<le> i then Inr (xs ! nat (int (length xs) + i))
      else Inl IndexError)"

text \<open>The directives of \<^verbatim>\<open>strftime\<close> that \<^verbatim>\<open>format_datetime\<close> uses, in the C locale.\<close>

definition weekday_name :: "int \<Rightarrow> string" where
  "weekday_name w =
     (if w = 0 then ''Monday'' else if w = 1 then ''Tuesday'' else if w = 2 then ''Wednesday''
      else if w = 3 then ''Thursday'' else if w = 4 then ''Friday''
      else if w = 5 then ''Saturday'' else ''Sunday'')"

definition month_name :: "int \<Rightarrow> string" where
  "month_name m =
     (if m = 1 then ''January'' else if m = 2 then ''February'' else if m = 3 then ''March''
      else if m = 4 then ''April'' else if m = 5 then ''May'' else if m = 6 then ''June''
      else if m = 7 then ''July'' else if m = 8 then ''August''
      else if m = 9 then ''September'' else if m = 10 then ''October''
      else if m = 11 then ''November'' else ''December'')"

definition two_digits :: "int \<Rightarrow> string" where
  "two_digits n = (if n < 10 then CHR ''0'' # str_int n else str_int n)"

definition strftime_A :: "datetime \<Rightarrow> string" where
  "strftime_A t = weekday_name (weekday_of (year t) (month t) (day t))"

definition strftime_B :: "datetime \<Rightarrow> string" where
  "strftime_B t = month_name (month t)"

definition strftime_d :: "datetime \<Rightarrow> string" where
  "strftime_d t = two_digits (day t)"

definition strftime_Y :: "datetime \<Rightarrow> string" where
  "strftime_Y t = str_int (year t)"

definition strftime_I :: "datetime \<Rightarrow> string" where
  "strftime_I t = two_digits (if hour t mod 12 = 0 then 12 else hour t mod 12)"

definition strftime_M :: "datetime \<Rightarrow> string" where
  "strftime_M t = two_digits (minute t)"

definition strftime_p :: "datetime \<Rightarrow> string" where
  "strftime_p t = (if hour t < 12 then ''AM'' else ''PM'')"

definition lstrip0 :: "string \<Rightarrow> string" where
  "lstrip0 s = dropWhile (\<lambda>c. c = CHR ''0'') s"

text \<open>
  \<^verbatim>\<open>format_datetime(universal_time)\<close>: the day is read back from \<^verbatim>\<open>%d\<close> with
  \<^verbatim>\<open>int\<close>; the suffix is \<^verbatim>\<open>th\<close> on the two ranges and an indexed list elsewhere.
\<close>

definition format_datetime :: "timezone \<Rightarrow> timezone \<Rightarrow> datetime \<Rightarrow> exn + string" where
  "format_datetime system current universal_time =
     and_then (astimezone system current universal_time) (\<lambda>local_time.
     and_then (py_int (VStr (strftime_d local_time))) (\<lambda>day.
     and_then (if (4 \<le> day \<and> day \<le> 20) \<or> (24 \<le> day \<and> day \<le> 30) then Inr ''th''
               else py_index [''st'', ''nd'', ''rd''] (day mod 10 - 1)) (\<lambda>suffix.
     Inr (strftime_A local_time @ '', '' @ strftime_B local_time @ '' ''
          @ str_int day @ suffix
          @ '', '' @ strftime_Y local_time @ '' @ ''
          @ lstrip0 (strftime_I local_time @ '':'' @ strftime_M local_time @ '' ''
                     @ strftime_p local_time)))))"

text \<open>
  The English ordinal suffix of a positive number, as grammar has it: \<open>th\<close> for the
  numbers ending in 11, 12 and 13, otherwise \<open>st\<close>, \<open>nd\<close>, \<open>rd\<close> after a last digit
  1, 2, 3, and \<open>th\<close> after any other digit. This is the reference that the suffix of
  \<open>format_datetime\<close> is compared with; it is not taken from the source.
\<close>

definition english_ordinal_suffix :: "int \<Rightarrow> string" where
  "english_ordinal_suffix n =
     (if n mod 100 = 11 \<or> n mod 100 = 12 \<or> n mod 100 = 13 then ''th''
      else if n mod 10 = 1 then ''st''
      else if n mod 10 = 2 then ''nd''
      else if n mod 10 = 3 then ''rd''
      else ''th'')"

subsection \<open>Day boundaries\<close>

text \<open>
  \<^verbatim>\<open>beginning_of_the_day\<close> and \<^verbatim>\<open>end_of_the_day\<close> replace the time of day and drop
  the \<^verbatim>\<open>tzinfo\<close>; the flag \<^verbatim>\<open>in_local_timezone\<close> decides whether the result is localized.
\<close>

definition beginning_of_the_day :: "timezone \<Rightarrow> datetime \<Rightarrow> bool \<Rightarrow> exn + datetime" where
  "beginning_of_the_day current t in_local_timezone =
     (let midnight = t\<lparr>hour := 0, minute := 0, second := 0, microsecond := 0, tzinfo := None\<rparr>
      in if in_local_timezone then localize current midnight None else Inr midnight)"

definition end_of_the_day :: "timezone \<Rightarrow> datetime \<Rightarrow> bool \<Rightarrow> exn + datetime" where
  "end_of_the_day current t in_local_timezone =
     (let midnight = t\<lparr>hour := 23, minute := 59, second := 59, microsecond := 999999,
                        tzinfo := None\<rparr>
      in if in_local_timezone then localize current midnight None else Inr midnight)"

section \<open>Instances of the external parts\<close>

text \<open>
  Concrete timezones, converters and parsers on which the functions can be run.
  \<open>fixed_tz off\<close> is a timezone with one constant offset. \<open>gap_tz\<close> has offset -5 h
  for wall-clock readings before 03:00 on 10 March 2024 and -4 h from then on, as a
  zone that moves its clocks forward at 02:00 that night; pytz with \<^verbatim>\<open>is_dst=False\<close>
  gives the readings of the skipped hour the offset before the change, and with
  \<^verbatim>\<open>is_dst=None\<close> it raises on them.
\<close>

definition fixed_tz :: "int \<Rightarrow> timezone" where
  "fixed_tz off =
     \<lparr>tz_localize = (\<lambda>t. Some off), tz_localize_strict = (\<lambda>t. Inr off),
      tz_utcoffset = (\<lambda>u. off)\<rparr>"

definition gap_tz :: timezone where
  "gap_tz =
     \<lparr>tz_localize = (\<lambda>t. if wall_micros t < wall_micros (naive 2024 3 10 3 0 0 0)
                          then Some (- 18000) else Some (- 14400)),
      tz_localize_strict = (\<lambda>t.
         if wall_micros t < wall_micros (naive 2024 3 10 2 0 0 0) then Inr (- 18000)
         else if wall_micros t < wall_micros (naive 2024 3 10 3 0 0 0)
         then Inl NonExistentTimeError
         else Inr (- 14400)),
      tz_utcoffset = (\<lambda>u. if u < wall_micros (naive 2024 3 10 7 0 0 0)
                           then - 18000 else - 14400)\<rparr>"

text \<open>
  \<^verbatim>\<open>float(x)\<close> in exact arithmetic. A string is brought to ASCII and stripped as for
  \<^verbatim>\<open>int\<close>; an underscore must stand between two digits and is dropped; then a sign
  may come, and either one of the words \<^verbatim>\<open>inf\<close>, \<^verbatim>\<open>infinity\<close>, \<^verbatim>\<open>nan\<close> in any case, or
  a decimal number: digits, a point and digits, with at least one digit, and an
  exponent. A value beyond the range of a double is an infinity for a string and an
  \<^verbatim>\<open>OverflowError\<close> for an integer. Inside the range the value is the exact number
  written: the rounding to the nearest double is not part of the model. In
  \<open>Infinity b\<close> the flag \<open>b\<close> says that the infinity is positive.
\<close>

fun drop_underscores :: "char \<Rightarrow> string \<Rightarrow> string option" where
  "drop_underscores prev [] = (if prev = CHR ''_'' then None else Some [])"
| "drop_underscores prev (c # cs) =
     (if c = CHR ''_'' then (if is_digit prev then drop_underscores c cs else None)
      else if prev = CHR ''_'' \<and> \<not> is_digit c then None
      else map_option ((#) c) (drop_underscores c cs))"

definition digits_value :: "string \<Rightarrow> nat" where
  "digits_value ds = foldl (\<lambda>acc c. acc * 10 + digit_val c) 0 ds"

definition lower :: "char \<Rightarrow> char" where
  "lower c =
     (let n = (of_char c :: nat) in if 65 \<le> n \<and> n \<le> 90 then char_of (n + 32) else c)"

definition parse_exponent :: "string \<Rightarrow> int option" where
  "parse_exponent s =
     (case s of
        [] \<Rightarrow> Some 0
      | c # cs \<Rightarrow>
          if c = CHR ''e'' \<or> c = CHR ''E'' then
            (let neg = (case cs of x # _ \<Rightarrow> x = CHR ''-'' | [] \<Rightarrow> False);
                 ds = (case cs of
                         x # xs \<Rightarrow> if x = CHR ''-'' \<or> x = CHR ''+'' then xs else cs
                       | [] \<Rightarrow> [])
             in if ds \<noteq> [] \<and> list_all is_digit ds
                then Some (if neg then - int (digits_value ds) else int (digits_value ds))
                else None)
          else None)"

definition parse_decimal :: "string \<Rightarrow> rat option" where
  "parse_decimal s =
     (let ip = takeWhile is_digit s; r1 = dropWhile is_digit s;
          fp = (case r1 of c # t \<Rightarrow> if c = CHR ''.'' then takeWhile is_digit t else []
                         | [] \<Rightarrow> []);
          r2 = (case r1 of c # t \<Rightarrow> if c = CHR ''.'' then dropWhile is_digit t else r1
                         | [] \<Rightarrow> [])
      in if ip = [] \<and> fp = [] then None
         else case parse_exponent r2 of
                None \<Rightarrow> None
              | Some e \<Rightarrow>
                  (let k = e - int (length fp); v = of_nat (digits_value (ip @ fp))
                   in Some (if 0 \<le> k then v * 10 ^ nat k else v / 10 ^ nat (- k))))"

definition double_limit :: rat where
  "double_limit = 2 ^ 1024 - 2 ^ 970"

definition float_of_str :: "string \<Rightarrow> pyfloat option" where
  "float_of_str s =
     (case drop_underscores (CHR 0x00) (number_strip s) of
        None \<Rightarrow> None
      | Some t \<Rightarrow>
          (let neg = (case t of c # _ \<Rightarrow> c = CHR ''-'' | [] \<Rightarrow> False);
               body = (case t of
                         c # r \<Rightarrow> if c = CHR ''-'' \<or> c = CHR ''+'' then r else t
                       | [] \<Rightarrow> []);
               word = map lower body
           in if word = ''inf'' \<or> word = ''infinity'' then Some (Infinity (\<not> neg))
              else if word = ''nan'' then Some NaN
              else map_option
                     (\<lambda>q. if double_limit \<le> q then Infinity (\<not> neg)
                          else Finite (if neg then - q else q))
                     (parse_decimal body)))"

definition float_exact :: "pyval \<Rightarrow> exn + pyfloat" where
  "float_exact v =
     (case v of
        VNone \<Rightarrow> Inl TypeError
      | VBool b \<Rightarrow> Inr (Finite (if b then 1 else 0))
      | VInt i \<Rightarrow>
          if double_limit \<le> \<bar>of_int i\<bar> then Inl OverflowError else Inr (Finite (of_int i))
      | VFloat f \<Rightarrow> Inr f
      | VStr s \<Rightarrow> (case float_of_str s of None \<Rightarrow> Inl ValueError | Some f \<Rightarrow> Inr f))"

text \<open>
  \<open>utcfromtimestamp_exact\<close> is \<^verbatim>\<open>datetime.utcfromtimestamp\<close> in exact arithmetic: the
  microseconds are rounded half to even, day 719163 is 1 January 1970.
\<close>

definition round_half_even :: "rat \<Rightarrow> int" where
  "round_half_even q =
     (let f = \<lfloor>q\<rfloor>; r = q - of_int f
      in if r < 1 / 2 then f else if r > 1 / 2 then f + 1
         else if even f then f else f + 1)"

definition utcfromtimestamp_exact :: "pyfloat \<Rightarrow> exn + datetime" where
  "utcfromtimestamp_exact f =
     (case f of
        NaN \<Rightarrow> Inl ValueError
      | Infinity _ \<Rightarrow> Inl OverflowError
      | Finite q \<Rightarrow>
          (let w = 719163 * 86400000000 + round_half_even (q * 1000000);
               days = w div 86400000000
           in if 0 < days \<and> days \<le> MAXORDINAL then Inr (from_wall_micros w None)
              else Inl ValueError))"

text \<open>A parser that reads the dates \<^verbatim>\<open>strptime\<close> reads, standing for dateutil's.\<close>

definition iso_parse :: "string \<Rightarrow> exn + datetime" where
  "iso_parse s = or_raise (strptime_ymd s) ParserError"

section \<open>The validation chain of the specification\<close>


section \<open>Month arithmetic\<close>

text \<open>
  The calendar month \<open>k\<close> months after the month \<open>m\<close> of the year \<open>y\<close> (before it
  when \<open>k\<close> is negative), by counting months from year 0. It is the reference that
  the elements of the month list are stated with.
\<close>

definition add_months :: "int \<Rightarrow> int \<Rightarrow> int \<Rightarrow> int \<times> int" where
  "add_months y m k = ((y * 12 + (m - 1) + k) div 12, (y * 12 + (m - 1) + k) mod 12 + 1)"

section \<open>Basic facts\<close>

lemma and_then_Inr [simp]: "and_then (Inr v) f = f v"
  by (simp add: and_then_def)

lemma and_then_Inl [simp]: "and_then (Inl e) f = Inl e"
  by (simp add: and_then_def)

lemma or_raise_Inr [simp]: "or_raise (Inr v) e = Inr v"
  by (simp add: or_raise_def)

lemma or_raise_Inl [simp]: "or_raise (Inl x) e = Inl e"
  by (simp add: or_raise_def)

section \<open>Quiet conversion\<close>

lemma int_abc: "py_int (VStr ''abc'') = Inl ValueError"
  by (simp add: int_of_str_def number_strip_def is_ascii_space_def to_ascii_def parse_unsigned_def is_digit_def)

lemma int_42: "py_int (VStr ''42'') = Inr 42"
  by (simp add: int_of_str_def number_strip_def is_ascii_space_def to_ascii_def parse_unsigned_def is_digit_def
      digit_val_def)

text \<open>
  Claim C9. \<open>quiet_int\<close> has no exception in its result type, so it never fails. On
  every value that \<^verbatim>\<open>int\<close> converts it returns the integer, and on every value on
  which \<^verbatim>\<open>int\<close> raises, whatever the exception, it returns the default of the caller.
  With default 5 the string \<^verbatim>\<open>abc\<close> gives 5 and the string \<^verbatim>\<open>42\<close> gives 42.
\<close>

theorem quiet_int_never_fails:
  "(py_int v = Inr i \<longrightarrow> quiet_int v d = VInt i)
   \<and> (py_int v = Inl e \<longrightarrow> quiet_int v d = d)
   \<and> quiet_int (VStr ''abc'') (VInt 5) = VInt 5
   \<and> quiet_int (VStr ''42'') (VInt 5) = VInt 42"
  using int_abc int_42 by (simp add: quiet_int_def)

theorem quiet_int_never_fails_witness:
  "py_int (VStr ''42'') = Inr 42 \<and> quiet_int (VStr ''42'') (VInt 5) = VInt 42
   \<and> py_int (VStr ''abc'') = Inl ValueError \<and> quiet_int (VStr ''abc'') (VInt 5) = VInt 5"
  using quiet_int_never_fails [of "VStr ''42''" 42 "VInt 5" ValueError]
    quiet_int_never_fails [of "VStr ''abc''" 0 "VInt 5" ValueError]
    int_abc int_42
  by simp

section \<open>Parameter strings\<close>

text \<open>
  Claim C10. With \<^verbatim>\<open>raise_on_error=False\<close>, \<open>parse_parameter_string\<close> always
  returns: the stripped value for a key that holds a string, whatever its length and
  whatever \<^verbatim>\<open>maximum_length\<close>, and \<^verbatim>\<open>default_return\<close> for a missing key and for
  a value that has no \<^verbatim>\<open>strip\<close>. The length limit acts only with
  \<^verbatim>\<open>raise_on_error=True\<close>, where the same call raises. The last conjunct runs a value
  of eleven characters against a limit of three.
\<close>

theorem parse_parameter_string_quiet:
  "parse_parameter_string d k n False dflt =
     (case d k of Some (VStr s) \<Rightarrow> Inr (VStr (strip s)) | _ \<Rightarrow> Inr dflt)
   \<and> (\<exists>r. parse_parameter_string d k n False dflt = Inr r)
   \<and> parse_parameter_string d k n True dflt =
       (case d k of
          None \<Rightarrow> Inl (KeyError k)
        | Some (VStr s) \<Rightarrow>
            if int (length (strip s)) > n
            then Inl (Exception (too_long_message k (length (strip s)) n))
            else Inr (VStr (strip s))
        | Some _ \<Rightarrow> Inl AttributeError)
   \<and> parse_parameter_string [''k'' \<mapsto> VStr ''  hello world ''] ''k'' 3 False (VStr [])
       = Inr (VStr ''hello world'')"
proof -
  have "strip ''  hello world '' = ''hello world''"
    by (simp add: strip_def is_space_def)
  then show ?thesis
    by (auto simp: parse_parameter_string_def lookup_def Let_def
        split: option.splits pyval.splits)
qed

section \<open>Formatting\<close>

lemma read_back_day: "\<forall>d\<in>set [1..31]. py_int (VStr (two_digits d)) = Inr d"
  by code_simp

lemma suffix_agrees:
  "\<forall>d\<in>set [1..31].
     (if (4 \<le> d \<and> d \<le> 20) \<or> (24 \<le> d \<and> d \<le> 30) then Inr ''th''
      else py_index [''st'', ''nd'', ''rd''] (d mod 10 - 1)) = Inr (english_ordinal_suffix d)"
  by code_simp

text \<open>
  Claim C6. For every instant whose local day of the month is between 1 and 31,
  \<open>format_datetime\<close> returns the weekday, the month, the day followed by the English
  ordinal suffix of the day, the year and the time. The suffix is the one of English
  grammar (\<open>english_ordinal_suffix\<close>): \<open>st\<close>, \<open>nd\<close>, \<open>rd\<close> after a last digit 1, 2,
  3 except on 11, 12 and 13, and \<open>th\<close> elsewhere, so 4 to 20 and 24 to 30 take \<open>th\<close>.
\<close>

theorem format_datetime_ordinal_suffix:
  assumes "astimezone system current universal_time = Inr local_time"
    and "1 \<le> day local_time" and "day local_time \<le> 31"
  shows "format_datetime system current universal_time =
           Inr (strftime_A local_time @ '', '' @ strftime_B local_time @ '' ''
                @ str_int (day local_time) @ english_ordinal_suffix (day local_time)
                @ '', '' @ strftime_Y local_time @ '' @ ''
                @ lstrip0 (strftime_I local_time @ '':'' @ strftime_M local_time @ '' ''
                           @ strftime_p local_time))"
proof -
  from assms(2,3) have mem: "day local_time \<in> set [1..31]" by simp
  have rd: "py_int (VStr (strftime_d local_time)) = Inr (day local_time)"
    unfolding strftime_d_def using read_back_day mem by blast
  have suf: "(if (4 \<le> day local_time \<and> day local_time \<le> 20)
                 \<or> (24 \<le> day local_time \<and> day local_time \<le> 30) then Inr ''th''
              else py_index [''st'', ''nd'', ''rd''] (day local_time mod 10 - 1))
             = Inr (english_ordinal_suffix (day local_time))"
    using suffix_agrees mem by blast
  show ?thesis
    unfolding format_datetime_def assms(1) and_then_Inr rd suf ..
qed

text \<open>
  The five days named in the claim, each at 15:05 UTC and read five hours west of
  Greenwich: 1st, 11th, 21st, 24th and 31st.
\<close>

lemma format_at_day:
  assumes "d \<in> {1, 11, 21, 24, 31}"
  shows "astimezone (fixed_tz 0) (fixed_tz (- 18000))
           ((naive 2024 3 d 15 5 0 0)\<lparr>tzinfo := Some 0\<rparr>)
         = Inr ((naive 2024 3 d 10 5 0 0)\<lparr>tzinfo := Some (- 18000)\<rparr>)"
  using assms by (elim insertE emptyE; hypsubst; code_simp)

theorem format_datetime_ordinal_suffix_witness:
  "format_datetime (fixed_tz 0) (fixed_tz (- 18000))
       ((naive 2024 3 1 15 5 0 0)\<lparr>tzinfo := Some 0\<rparr>)
     = Inr ''Friday, March 1st, 2024 @ 10:05 AM'' \<and>
   format_datetime (fixed_tz 0) (fixed_tz (- 18000))
       ((naive 2024 3 11 15 5 0 0)\<lparr>tzinfo := Some 0\<rparr>)
     = Inr ''Monday, March 11th, 2024 @ 10:05 AM'' \<and>
   format_datetime (fixed_tz 0) (fixed_tz (- 18000))
       ((naive 2024 3 21 15 5 0 0)\<lparr>tzinfo := Some 0\<rparr>)
     = Inr ''Thursday, March 21st, 2024 @ 10:05 AM'' \<and>
   format_datetime (fixed_tz 0) (fixed_tz (- 18000))
       ((naive 2024 3 24 15 5 0 0)\<lparr>tzinfo := Some 0\<rparr>)
     = Inr ''Sunday, March 24th, 2024 @ 10:05 AM'' \<and>
   format_datetime (fixed_tz 0) (fixed_tz (- 18000))
       ((naive 2024 3 31 15 5 0 0)\<lparr>tzinfo := Some 0\<rparr>)
     = Inr ''Sunday, March 31st, 2024 @ 10:05 AM''"
proof -
  let ?t1 = "((naive 2024 3 1 10 5 0 0)\<lparr>tzinfo := Some (- 18000)\<rparr>)"
  let ?t11 = "((naive 2024 3 11 10 5 0 0)\<lparr>tzinfo := Some (- 18000)\<rparr>)"
  let ?t21 = "((naive 2024 3 21 10 5 0 0)\<lparr>tzinfo := Some (- 18000)\<rparr>)"
  let ?t24 = "((naive 2024 3 24 10 5 0 0)\<lparr>tzinfo := Some (- 18000)\<rparr>)"
  let ?t31 = "((naive 2024 3 31 10 5 0 0)\<lparr>tzinfo := Some (- 18000)\<rparr>)"
  have r1: "strftime_A ?t1 @ '', '' @ strftime_B ?t1 @ '' ''
                @ str_int (day ?t1) @ english_ordinal_suffix (day ?t1)
                @ '', '' @ strftime_Y ?t1 @ '' @ ''
                @ lstrip0 (strftime_I ?t1 @ '':'' @ strftime_M ?t1 @ '' ''
                           @ strftime_p ?t1) = ''Friday, March 1st, 2024 @ 10:05 AM''"
    by code_simp
  have f1: "format_datetime (fixed_tz 0) (fixed_tz (- 18000)) ((naive 2024 3 1 15 5 0 0)\<lparr>tzinfo := Some 0\<rparr>) = Inr ''Friday, March 1st, 2024 @ 10:05 AM''"
    using format_datetime_ordinal_suffix [OF format_at_day [of 1]] r1
    by (simp add: naive_def)
  have r11: "strftime_A ?t11 @ '', '' @ strftime_B ?t11 @ '' ''
                @ str_int (day ?t11) @ english_ordinal_suffix (day ?t11)
                @ '', '' @ strftime_Y ?t11 @ '' @ ''
                @ lstrip0 (strftime_I ?t11 @ '':'' @ strftime_M ?t11 @ '' ''
                           @ strftime_p ?t11) = ''Monday, March 11th, 2024 @ 10:05 AM''"
    by code_simp
  have f11: "format_datetime (fixed_tz 0) (fixed_tz (- 18000)) ((naive 2024 3 11 15 5 0 0)\<lparr>tzinfo := Some 0\<rparr>) = Inr ''Monday, March 11th, 2024 @ 10:05 AM''"
    using format_datetime_ordinal_suffix [OF format_at_day [of 11]] r11
    by (simp add: naive_def)
  have r21: "strftime_A ?t21 @ '', '' @ strftime_B ?t21 @ '' ''
                @ str_int (day ?t21) @ english_ordinal_suffix (day ?t21)
                @ '', '' @ strftime_Y ?t21 @ '' @ ''
                @ lstrip0 (strftime_I ?t21 @ '':'' @ strftime_M ?t21 @ '' ''
                           @ strftime_p ?t21) = ''Thursday, March 21st, 2024 @ 10:05 AM''"
    by code_simp
  have f21: "format_datetime (fixed_tz 0) (fixed_tz (- 18000)) ((naive 2024 3 21 15 5 0 0)\<lparr>tzinfo := Some 0\<rparr>) = Inr ''Thursday, March 21st, 2024 @ 10:05 AM''"
    using format_datetime_ordinal_suffix [OF format_at_day [of 21]] r21
    by (simp add: naive_def)
  have r24: "strftime_A ?t24 @ '', '' @ strftime_B ?t24 @ '' ''
                @ str_int (day ?t24) @ english_ordinal_suffix (day ?t24)
                @ '', '' @ strftime_Y ?t24 @ '' @ ''
                @ lstrip0 (strftime_I ?t24 @ '':'' @ strftime_M ?t24 @ '' ''
                           @ strftime_p ?t24) = ''Sunday, March 24th, 2024 @ 10:05 AM''"
    by code_simp
  have f24: "format_datetime (fixed_tz 0) (fixed_tz (- 18000)) ((naive 2024 3 24 15 5 0 0)\<lparr>tzinfo := Some 0\<rparr>) = Inr ''Sunday, March 24th, 2024 @ 10:05 AM''"
    using format_datetime_ordinal_suffix [OF format_at_day [of 24]] r24
    by (simp add: naive_def)
  have r31: "strftime_A ?t31 @ '', '' @ strftime_B ?t31 @ '' ''
                @ str_int (day ?t31) @ english_ordinal_suffix (day ?t31)
                @ '', '' @ strftime_Y ?t31 @ '' @ ''
                @ lstrip0 (strftime_I ?t31 @ '':'' @ strftime_M ?t31 @ '' ''
                           @ strftime_p ?t31) = ''Sunday, March 31st, 2024 @ 10:05 AM''"
    by code_simp
  have f31: "format_datetime (fixed_tz 0) (fixed_tz (- 18000)) ((naive 2024 3 31 15 5 0 0)\<lparr>tzinfo := Some 0\<rparr>) = Inr ''Sunday, March 31st, 2024 @ 10:05 AM''"
    using format_datetime_ordinal_suffix [OF format_at_day [of 31]] r31
    by (simp add: naive_def)
  from f1 f11 f21 f24 f31 show ?thesis by blast
qed

section \<open>Day boundaries\<close>

lemma localize_Inr_iff:
  "localize current t tz = Inr r \<longleftrightarrow>
     tzinfo t = None
     \<and> (\<exists>off. tz_localize (case tz of None \<Rightarrow> current | Some z \<Rightarrow> z) t = Some off
              \<and> r = t\<lparr>tzinfo := Some off\<rparr>)"
  by (auto simp: localize_def pytz_localize_def split: option.splits)

text \<open>
  Claim C8, as the code has it. Let the time of day of \<open>t\<close> be 23:59:59.999999. Then
  \<open>end_of_the_day\<close> leaves every wall-clock field of \<open>t\<close> as it is, and applying it to
  its own result returns that result again. The result is \<open>t\<close> itself when the flag is
  off and \<open>t\<close> is naive, and when the flag is on and \<open>t\<close> carries the offset that the
  process timezone gives to its wall-clock reading. The \<^verbatim>\<open>tzinfo\<close> of \<open>t\<close> is dropped
  before the result is localized, so an aware \<open>t\<close> of another offset comes back as
  another instant.
\<close>

theorem end_of_the_day_fixed:
  assumes "hour t = 23" and "minute t = 59" and "second t = 59"
    and "microsecond t = 999999"
  shows "(end_of_the_day current t flag = Inr r \<longrightarrow>
            year r = year t \<and> month r = month t \<and> day r = day t \<and> hour r = hour t
            \<and> minute r = minute t \<and> second r = second t \<and> microsecond r = microsecond t
            \<and> end_of_the_day current r flag = Inr r)
         \<and> (tzinfo t = None \<longrightarrow> end_of_the_day current t False = Inr t)
         \<and> (tz_localize current (t\<lparr>tzinfo := None\<rparr>) = Some off \<and> tzinfo t = Some off
              \<longrightarrow> end_of_the_day current t True = Inr t)"
proof -
  have same: "t\<lparr>hour := 23, minute := 59, second := 59, microsecond := 999999,
                 tzinfo := None\<rparr> = t\<lparr>tzinfo := None\<rparr>"
    using assms by simp
  have a: "end_of_the_day current t flag = Inr r \<longrightarrow>
            year r = year t \<and> month r = month t \<and> day r = day t \<and> hour r = hour t
            \<and> minute r = minute t \<and> second r = second t \<and> microsecond r = microsecond t
            \<and> end_of_the_day current r flag = Inr r"
    using assms
    by (cases flag) (auto simp: end_of_the_day_def Let_def localize_Inr_iff)
  have b: "tzinfo t = None \<longrightarrow> end_of_the_day current t False = Inr t"
    using assms by (simp add: end_of_the_day_def)
  have c: "tz_localize current (t\<lparr>tzinfo := None\<rparr>) = Some off \<and> tzinfo t = Some off
              \<longrightarrow> end_of_the_day current t True = Inr t"
    using assms by (auto simp: end_of_the_day_def Let_def localize_Inr_iff same)
  from a b c show ?thesis by blast
qed

text \<open>
  The last second of 11 March 2024, localized five hours west of Greenwich, is returned
  as it is.
\<close>

theorem end_of_the_day_fixed_witness:
  "end_of_the_day (fixed_tz (- 18000))
     ((naive 2024 3 11 23 59 59 999999)\<lparr>tzinfo := Some (- 18000)\<rparr>) True
   = Inr ((naive 2024 3 11 23 59 59 999999)\<lparr>tzinfo := Some (- 18000)\<rparr>)
   \<and> end_of_the_day (fixed_tz (- 18000)) (naive 2024 3 11 23 59 59 999999) False
     = Inr (naive 2024 3 11 23 59 59 999999)"
  using end_of_the_day_fixed
      [of "(naive 2024 3 11 23 59 59 999999)\<lparr>tzinfo := Some (- 18000)\<rparr>"
          "fixed_tz (- 18000)" True _ "- 18000"]
    end_of_the_day_fixed
      [of "naive 2024 3 11 23 59 59 999999" "fixed_tz (- 18000)" False _ 0]
  by (simp add: naive_def fixed_tz_def)

text \<open>
  The claim as stated fails on an aware instant of another offset: the last microsecond
  of 11 March 2024 in UTC comes back as the last microsecond of that day five hours
  west of Greenwich, which is five hours later.
\<close>

theorem end_of_the_day_counterexample:
  "end_of_the_day (fixed_tz (- 18000))
       ((naive 2024 3 11 23 59 59 999999)\<lparr>tzinfo := Some 0\<rparr>) True
     = Inr ((naive 2024 3 11 23 59 59 999999)\<lparr>tzinfo := Some (- 18000)\<rparr>)
   \<and> utc_micros ((naive 2024 3 11 23 59 59 999999)\<lparr>tzinfo := Some (- 18000)\<rparr>)
       = utc_micros ((naive 2024 3 11 23 59 59 999999)\<lparr>tzinfo := Some 0\<rparr>)
         + 5 * 3600 * 1000000"
  by (simp add: end_of_the_day_def localize_def pytz_localize_def fixed_tz_def naive_def
      utc_micros_def wall_micros_def toordinal_def)

section \<open>Range extraction\<close>

lemma dt_less_aware:
  "tzinfo a \<noteq> None \<Longrightarrow> tzinfo b \<noteq> None \<Longrightarrow> dt_less a b = Inr (utc_micros a < utc_micros b)"
  by (auto simp: dt_less_def split: option.splits)

lemma localize_aware: "localize current t tz = Inr r \<Longrightarrow> tzinfo r \<noteq> None"
  by (auto simp: localize_Inr_iff)

lemma timestamp_to_local_aware:
  "timestamp_to_local to_float utcfromtimestamp current tz x = Inr r \<Longrightarrow> tzinfo r \<noteq> None"
  by (auto simp: timestamp_to_local_def and_then_def split: sum.splits dest: localize_aware)


lemma messages_distinct:
  "distinct [msg_no_start, msg_no_end, msg_bad_start, msg_bad_end, msg_inverted]"
  by (simp add: msg_no_start_def msg_no_end_def msg_bad_start_def msg_bad_end_def
      msg_inverted_def)

text \<open>Two timestamps half an hour apart, 02:30 and 03:00 UTC on 10 March 2024.\<close>

lemma round_half_even_int: "round_half_even (of_int i) = i"
  by (simp add: round_half_even_def Let_def)

lemma round_half_even_numeral [simp]: "round_half_even (numeral n) = numeral n"
  using round_half_even_int [of "numeral n"] by simp

lemma ord_738955: "ord2ymd 738955 = (2024, 3, 10)"
  by (simp add: ord2ymd_def Let_def days_before_month_common_def mdays_def)

lemma double_limit_large: "(2::rat) ^ 64 \<le> double_limit"
proof -
  have "(2::rat) ^ 970 \<le> 2 ^ 1023" by (rule power_increasing) simp_all
  moreover have "(2::rat) ^ 1024 = 2 * 2 ^ 1023" by simp
  moreover have "(2::rat) ^ 64 \<le> 2 ^ 1023" by (rule power_increasing) simp_all
  ultimately show ?thesis unfolding double_limit_def by linarith
qed

lemma below_double_limit: "q < 2 ^ 64 \<Longrightarrow> \<not> double_limit \<le> q"
  using double_limit_large by linarith

lemmas float_eval =
  float_exact_def float_of_str_def number_strip_def is_ascii_space_def to_ascii_def
  is_digit_def digit_val_def lower_def parse_decimal_def parse_exponent_def digits_value_def
  Let_def

lemma float_0230: "float_exact (VStr ''1710037800'') = Inr (Finite 1710037800)"
  by (simp add: float_eval below_double_limit)

lemma float_0300: "float_exact (VStr ''1710039600'') = Inr (Finite 1710039600)"
  by (simp add: float_eval below_double_limit)

lemma utc_0230: "utcfromtimestamp_exact (Finite 1710037800) = Inr (naive 2024 3 10 2 30 0 0)"
  by (simp add: utcfromtimestamp_exact_def Let_def MAXORDINAL_def from_wall_micros_def
      ord_738955 naive_def)

lemma utc_0300: "utcfromtimestamp_exact (Finite 1710039600) = Inr (naive 2024 3 10 3 0 0 0)"
  by (simp add: utcfromtimestamp_exact_def Let_def MAXORDINAL_def from_wall_micros_def
      ord_738955 naive_def)

lemma ts_0230:
  "timestamp_to_local float_exact utcfromtimestamp_exact (fixed_tz 0) None (VStr ''1710037800'')
     = Inr ((naive 2024 3 10 2 30 0 0)\<lparr>tzinfo := Some 0\<rparr>)"
  by (simp add: timestamp_to_local_def float_0230 utc_0230 localize_def pytz_localize_def
      fixed_tz_def naive_def)

lemma ts_0300:
  "timestamp_to_local float_exact utcfromtimestamp_exact (fixed_tz 0) None (VStr ''1710039600'')
     = Inr ((naive 2024 3 10 3 0 0 0)\<lparr>tzinfo := Some 0\<rparr>)"
  by (simp add: timestamp_to_local_def float_0300 utc_0300 localize_def pytz_localize_def
      fixed_tz_def naive_def)

lemma micros_0230_0300:
  "utc_micros ((naive 2024 3 10 2 30 0 0)\<lparr>tzinfo := Some 0\<rparr>)
     < utc_micros ((naive 2024 3 10 3 0 0 0)\<lparr>tzinfo := Some 0\<rparr>)"
  by (simp add: utc_micros_def wall_micros_def toordinal_def naive_def)

text \<open>
  Claim C1, as the code has it. Let the parameter map hold a \<^verbatim>\<open>start\<close> and an
  \<^verbatim>\<open>end\<close> that both convert: \<open>s\<close> and \<open>e\<close> are the validated instants, that is the
  timestamps read as wall-clock readings and localized. If \<open>e\<close> is strictly earlier
  than \<open>s\<close>, \<open>extract_times\<close> fails with the message of the inverted range; otherwise
  it returns the pair \<open>(s, e)\<close>, whose start is not after its end. Both instants are
  aware. The comparison is between the validated instants, not between the numbers.
\<close>

theorem extract_times_ordering:
  assumes "parameters ''start'' = Some a" and "parameters ''end'' = Some b"
    and "timestamp_to_local to_float utcfromtimestamp current tz a = Inr s"
    and "timestamp_to_local to_float utcfromtimestamp current tz b = Inr e"
  shows "(utc_micros e < utc_micros s \<longrightarrow>
            extract_times to_float utcfromtimestamp current parameters tz
              = Inl (Exception msg_inverted))
         \<and> (utc_micros s \<le> utc_micros e \<longrightarrow>
            extract_times to_float utcfromtimestamp current parameters tz = Inr (s, e))
         \<and> tzinfo s \<noteq> None \<and> tzinfo e \<noteq> None"
proof -
  have aw: "tzinfo s \<noteq> None" "tzinfo e \<noteq> None"
    using assms(3,4) by (auto dest: timestamp_to_local_aware)
  have "extract_times to_float utcfromtimestamp current parameters tz
          = (if utc_micros e < utc_micros s then Inl (Exception msg_inverted) else Inr (s, e))"
    by (simp add: extract_times_def lookup_def assms dt_less_aware [OF aw(2) aw(1)])
  with aw show ?thesis by auto
qed

text \<open>
  The two timestamps in order give the range; the same two exchanged give the
  inverted range.
\<close>

theorem extract_times_ordering_witness:
  "extract_times float_exact utcfromtimestamp_exact (fixed_tz 0)
       [''start'' \<mapsto> VStr ''1710037800'', ''end'' \<mapsto> VStr ''1710039600''] None
     = Inr ((naive 2024 3 10 2 30 0 0)\<lparr>tzinfo := Some 0\<rparr>,
            (naive 2024 3 10 3 0 0 0)\<lparr>tzinfo := Some 0\<rparr>)
   \<and> extract_times float_exact utcfromtimestamp_exact (fixed_tz 0)
       [''start'' \<mapsto> VStr ''1710039600'', ''end'' \<mapsto> VStr ''1710037800''] None
     = Inl (Exception msg_inverted)"
proof -
  let ?p = "[''start'' \<mapsto> VStr ''1710037800'', ''end'' \<mapsto> VStr ''1710039600'']"
  let ?q = "[''start'' \<mapsto> VStr ''1710039600'', ''end'' \<mapsto> VStr ''1710037800'']"
  have p: "?p ''start'' = Some (VStr ''1710037800'')" "?p ''end'' = Some (VStr ''1710039600'')"
    by simp_all
  have q: "?q ''start'' = Some (VStr ''1710039600'')" "?q ''end'' = Some (VStr ''1710037800'')"
    by simp_all
  have le: "utc_micros ((naive 2024 3 10 2 30 0 0)\<lparr>tzinfo := Some 0\<rparr>)
              \<le> utc_micros ((naive 2024 3 10 3 0 0 0)\<lparr>tzinfo := Some 0\<rparr>)"
    using micros_0230_0300 by simp
  from extract_times_ordering [OF p ts_0230 ts_0300] le
  have 1: "extract_times float_exact utcfromtimestamp_exact (fixed_tz 0) ?p None
     = Inr ((naive 2024 3 10 2 30 0 0)\<lparr>tzinfo := Some 0\<rparr>,
            (naive 2024 3 10 3 0 0 0)\<lparr>tzinfo := Some 0\<rparr>)"
    by blast
  from extract_times_ordering [OF q ts_0300 ts_0230] micros_0230_0300
  have 2: "extract_times float_exact utcfromtimestamp_exact (fixed_tz 0) ?q None
     = Inl (Exception msg_inverted)"
    by blast
  from 1 2 show ?thesis by (rule conjI)
qed

text \<open>
  The claim names the order of the two timestamps as the condition of success. That
  order does not decide the outcome where the timezone skips an hour. In \<open>gap_tz\<close>
  the timestamp 1710039540 is the reading 02:59, which is given the offset before the
  change and is 07:59 UTC, and the timestamp 1710039600, one minute later, is the
  reading 03:00, which is given the offset after the change and is 07:00 UTC. With
  the first as start and the second as end the range is refused as inverted; with
  the two exchanged it is returned.
\<close>

lemma float_0259: "float_exact (VStr ''1710039540'') = Inr (Finite 1710039540)"
  by (simp add: float_eval below_double_limit)

lemma utc_0259: "utcfromtimestamp_exact (Finite 1710039540) = Inr (naive 2024 3 10 2 59 0 0)"
  by (simp add: utcfromtimestamp_exact_def Let_def MAXORDINAL_def from_wall_micros_def
      ord_738955 naive_def)

lemma gap_0259:
  "timestamp_to_local float_exact utcfromtimestamp_exact gap_tz None (VStr ''1710039540'')
     = Inr ((naive 2024 3 10 2 59 0 0)\<lparr>tzinfo := Some (- 18000)\<rparr>)"
  by (simp add: timestamp_to_local_def float_0259 utc_0259 localize_def pytz_localize_def
      gap_tz_def naive_def wall_micros_def toordinal_def)

lemma gap_0300:
  "timestamp_to_local float_exact utcfromtimestamp_exact gap_tz None (VStr ''1710039600'')
     = Inr ((naive 2024 3 10 3 0 0 0)\<lparr>tzinfo := Some (- 14400)\<rparr>)"
  by (simp add: timestamp_to_local_def float_0300 utc_0300 localize_def pytz_localize_def
      gap_tz_def naive_def wall_micros_def toordinal_def)

theorem extract_times_raw_order_counterexample:
  "float_exact (VStr ''1710039540'') = Inr (Finite 1710039540)
   \<and> float_exact (VStr ''1710039600'') = Inr (Finite 1710039600)
   \<and> (1710039540 :: rat) \<le> 1710039600
   \<and> extract_times float_exact utcfromtimestamp_exact gap_tz
         [''start'' \<mapsto> VStr ''1710039540'', ''end'' \<mapsto> VStr ''1710039600''] None
       = Inl (Exception msg_inverted)
   \<and> extract_times float_exact utcfromtimestamp_exact gap_tz
         [''start'' \<mapsto> VStr ''1710039600'', ''end'' \<mapsto> VStr ''1710039540''] None
       = Inr ((naive 2024 3 10 3 0 0 0)\<lparr>tzinfo := Some (- 14400)\<rparr>,
              (naive 2024 3 10 2 59 0 0)\<lparr>tzinfo := Some (- 18000)\<rparr>)"
proof -
  have 1: "extract_times float_exact utcfromtimestamp_exact gap_tz
         [''start'' \<mapsto> VStr ''1710039540'', ''end'' \<mapsto> VStr ''1710039600''] None
       = Inl (Exception msg_inverted)"
    by (simp add: extract_times_def lookup_def gap_0259 gap_0300 dt_less_def utc_micros_def
        wall_micros_def toordinal_def naive_def)
  have 2: "extract_times float_exact utcfromtimestamp_exact gap_tz
         [''start'' \<mapsto> VStr ''1710039600'', ''end'' \<mapsto> VStr ''1710039540''] None
       = Inr ((naive 2024 3 10 3 0 0 0)\<lparr>tzinfo := Some (- 14400)\<rparr>,
              (naive 2024 3 10 2 59 0 0)\<lparr>tzinfo := Some (- 18000)\<rparr>)"
    by (simp add: extract_times_def lookup_def gap_0259 gap_0300 dt_less_def utc_micros_def
        wall_micros_def toordinal_def naive_def)
  from 1 2 float_0259 float_0300 show ?thesis by simp
qed

text \<open>Values that do not convert, and calendar dates that do.\<close>

lemmas strptime_eval =
  strptime_ymd_def strptime_matches_def month_alts_def day_alts_def in_range_def
  is_digit_def digit_val_def mk_datetime_def valid_date_def valid_time_def days_in_month_def
  isleap_def mdays_def MINYEAR_def MAXYEAR_def

lemma float_abc: "float_exact (VStr ''abc'') = Inl ValueError"
  by (simp add: float_eval below_double_limit)

lemma strptime_abc: "strptime_ymd ''abc'' = Inl ValueError"
  by (simp add: strptime_eval)

lemma strptime_feb_10: "strptime_ymd ''2024-02-10'' = Inr (naive 2024 2 10 0 0 0 0)"
  by (simp add: strptime_eval)


lemma strptime_feb_30: "strptime_ymd ''2024-02-30'' = Inl ValueError"
  by (simp add: strptime_eval)

lemma strptime_timestamp: "strptime_ymd ''1710037800'' = Inl ValueError"
  by (simp add: strptime_eval)

lemma extract_date_abc: "extract_date (fixed_tz 0) (VStr ''abc'') = Inl ValueError"
  by (simp add: extract_date_def strptime_abc)

lemma extract_date_feb_10:
  "extract_date (fixed_tz 0) (VStr ''2024-02-10'')
     = Inr ((naive 2024 2 10 0 0 0 0)\<lparr>tzinfo := Some 0\<rparr>)"
  by (simp add: extract_date_def strptime_feb_10 localize_def pytz_localize_def fixed_tz_def
      naive_def)


lemma extract_date_feb_30: "extract_date (fixed_tz 0) (VStr ''2024-02-30'') = Inl ValueError"
  by (simp add: extract_date_def strptime_feb_30)

lemma ts_abc:
  "timestamp_to_local float_exact utcfromtimestamp_exact (fixed_tz 0) None (VStr ''abc'')
     = Inl ValueError"
  by (simp add: timestamp_to_local_def float_abc)

text \<open>
  The conversion of a timestamp fails when \<^verbatim>\<open>float\<close> raises, when
  \<^verbatim>\<open>utcfromtimestamp\<close> raises, or when the instant cannot be localized.
\<close>

lemma timestamp_to_local_fails:
  "(\<exists>x. timestamp_to_local to_float utcfromtimestamp current tz v = Inl x) \<longleftrightarrow>
     (\<exists>x. to_float v = Inl x)
     \<or> (\<exists>f x. to_float v = Inr f \<and> utcfromtimestamp f = Inl x)
     \<or> (\<exists>f t x. to_float v = Inr f \<and> utcfromtimestamp f = Inr t
                \<and> localize current t tz = Inl x)"
  by (auto simp: timestamp_to_local_def and_then_def split: sum.splits)

text \<open>
  Claim C2. Both range extractors fail with the message of the missing start when the
  key \<^verbatim>\<open>start\<close> is absent, whatever else the map holds; with the message of the missing
  end when \<^verbatim>\<open>start\<close> is present and \<^verbatim>\<open>end\<close> is absent; with the message of the invalid
  start when both keys are present and the start does not convert; and with the message
  of the invalid end when the start converts and the end does not. Every failure is a
  plain \<^verbatim>\<open>Exception\<close>; the five messages, the inverted range included, are pairwise
  different.
\<close>

theorem range_extraction_failures:
  "(parameters ''start'' = None \<longrightarrow>
      extract_times to_float utcfromtimestamp current parameters tz
        = Inl (Exception msg_no_start)
      \<and> extract_dates current parameters = Inl (Exception msg_no_start))
   \<and> (parameters ''start'' = Some a \<and> parameters ''end'' = None \<longrightarrow>
      extract_times to_float utcfromtimestamp current parameters tz
        = Inl (Exception msg_no_end)
      \<and> extract_dates current parameters = Inl (Exception msg_no_end))
   \<and> (parameters ''start'' = Some a \<and> parameters ''end'' = Some b
       \<and> timestamp_to_local to_float utcfromtimestamp current tz a = Inl x \<longrightarrow>
      extract_times to_float utcfromtimestamp current parameters tz
        = Inl (Exception msg_bad_start))
   \<and> (parameters ''start'' = Some a \<and> parameters ''end'' = Some b
       \<and> timestamp_to_local to_float utcfromtimestamp current tz a = Inr s
       \<and> timestamp_to_local to_float utcfromtimestamp current tz b = Inl x \<longrightarrow>
      extract_times to_float utcfromtimestamp current parameters tz
        = Inl (Exception msg_bad_end))
   \<and> (parameters ''start'' = Some a \<and> parameters ''end'' = Some b
       \<and> extract_date current a = Inl x \<longrightarrow>
      extract_dates current parameters = Inl (Exception msg_bad_start))
   \<and> (parameters ''start'' = Some a \<and> parameters ''end'' = Some b
       \<and> extract_date current a = Inr s \<and> extract_date current b = Inl x \<longrightarrow>
      extract_dates current parameters = Inl (Exception msg_bad_end))
   \<and> distinct [msg_no_start, msg_no_end, msg_bad_start, msg_bad_end, msg_inverted]"
  using messages_distinct
  by (auto simp: extract_times_def extract_dates_def lookup_def)

text \<open>
  Maps without a start, without an end, with a start that is no number or no date, and
  with an end that is no number or a day the calendar does not have.
\<close>

theorem range_extraction_failures_witness:
  "extract_times float_exact utcfromtimestamp_exact (fixed_tz 0)
       Map.empty None
     = Inl (Exception msg_no_start)
   \<and> extract_dates (fixed_tz 0)
       Map.empty
     = Inl (Exception msg_no_start)
   \<and> extract_times float_exact utcfromtimestamp_exact (fixed_tz 0)
       [''start'' \<mapsto> VStr ''1710037800''] None
     = Inl (Exception msg_no_end)
   \<and> extract_dates (fixed_tz 0)
       [''start'' \<mapsto> VStr ''2024-02-10'']
     = Inl (Exception msg_no_end)
   \<and> extract_times float_exact utcfromtimestamp_exact (fixed_tz 0)
       [''start'' \<mapsto> VStr ''abc'', ''end'' \<mapsto> VStr ''1710039600''] None
     = Inl (Exception msg_bad_start)
   \<and> extract_times float_exact utcfromtimestamp_exact (fixed_tz 0)
       [''start'' \<mapsto> VStr ''1710037800'', ''end'' \<mapsto> VStr ''abc''] None
     = Inl (Exception msg_bad_end)
   \<and> extract_dates (fixed_tz 0)
       [''start'' \<mapsto> VStr ''abc'', ''end'' \<mapsto> VStr ''2024-02-10'']
     = Inl (Exception msg_bad_start)
   \<and> extract_dates (fixed_tz 0)
       [''start'' \<mapsto> VStr ''2024-02-10'', ''end'' \<mapsto> VStr ''2024-02-30'']
     = Inl (Exception msg_bad_end)"
proof -
  have t1: "extract_times float_exact utcfromtimestamp_exact (fixed_tz 0)
       Map.empty None
     = Inl (Exception msg_no_start)"
    using range_extraction_failures [where parameters = "Map.empty" and to_float = float_exact and utcfromtimestamp = utcfromtimestamp_exact and current = "fixed_tz 0" and tz = None]
      
    by simp
  have d1: "extract_dates (fixed_tz 0)
       Map.empty
     = Inl (Exception msg_no_start)"
    using range_extraction_failures [where parameters = "Map.empty" and to_float = float_exact and utcfromtimestamp = utcfromtimestamp_exact and current = "fixed_tz 0" and tz = None]
      
    by simp
  have t2: "extract_times float_exact utcfromtimestamp_exact (fixed_tz 0)
       [''start'' \<mapsto> VStr ''1710037800''] None
     = Inl (Exception msg_no_end)"
    using range_extraction_failures [where parameters = "[''start'' \<mapsto> VStr ''1710037800'']" and to_float = float_exact and utcfromtimestamp = utcfromtimestamp_exact and current = "fixed_tz 0" and tz = None and a = "VStr ''1710037800''"]
      
    by simp
  have d2: "extract_dates (fixed_tz 0)
       [''start'' \<mapsto> VStr ''2024-02-10'']
     = Inl (Exception msg_no_end)"
    using range_extraction_failures [where parameters = "[''start'' \<mapsto> VStr ''2024-02-10'']" and to_float = float_exact and utcfromtimestamp = utcfromtimestamp_exact and current = "fixed_tz 0" and tz = None and a = "VStr ''2024-02-10''"]
      
    by simp
  have t3: "extract_times float_exact utcfromtimestamp_exact (fixed_tz 0)
       [''start'' \<mapsto> VStr ''abc'', ''end'' \<mapsto> VStr ''1710039600''] None
     = Inl (Exception msg_bad_start)"
    using range_extraction_failures [where parameters = "[''start'' \<mapsto> VStr ''abc'', ''end'' \<mapsto> VStr ''1710039600'']" and to_float = float_exact and utcfromtimestamp = utcfromtimestamp_exact and current = "fixed_tz 0" and tz = None and a = "VStr ''abc''" and b = "VStr ''1710039600''" and x = ValueError]
      ts_abc
    by simp
  have t4: "extract_times float_exact utcfromtimestamp_exact (fixed_tz 0)
       [''start'' \<mapsto> VStr ''1710037800'', ''end'' \<mapsto> VStr ''abc''] None
     = Inl (Exception msg_bad_end)"
    using range_extraction_failures [where parameters = "[''start'' \<mapsto> VStr ''1710037800'', ''end'' \<mapsto> VStr ''abc'']" and to_float = float_exact and utcfromtimestamp = utcfromtimestamp_exact and current = "fixed_tz 0" and tz = None and a = "VStr ''1710037800''" and b = "VStr ''abc''" and x = ValueError and s = "(naive 2024 3 10 2 30 0 0)\<lparr>tzinfo := Some 0\<rparr>"]
      ts_abc ts_0230
    by simp
  have d3: "extract_dates (fixed_tz 0)
       [''start'' \<mapsto> VStr ''abc'', ''end'' \<mapsto> VStr ''2024-02-10'']
     = Inl (Exception msg_bad_start)"
    using range_extraction_failures [where parameters = "[''start'' \<mapsto> VStr ''abc'', ''end'' \<mapsto> VStr ''2024-02-10'']" and to_float = float_exact and utcfromtimestamp = utcfromtimestamp_exact and current = "fixed_tz 0" and tz = None and a = "VStr ''abc''" and b = "VStr ''2024-02-10''" and x = ValueError]
      extract_date_abc
    by simp
  have d4: "extract_dates (fixed_tz 0)
       [''start'' \<mapsto> VStr ''2024-02-10'', ''end'' \<mapsto> VStr ''2024-02-30'']
     = Inl (Exception msg_bad_end)"
    using range_extraction_failures [where parameters = "[''start'' \<mapsto> VStr ''2024-02-10'', ''end'' \<mapsto> VStr ''2024-02-30'']" and to_float = float_exact and utcfromtimestamp = utcfromtimestamp_exact and current = "fixed_tz 0" and tz = None and a = "VStr ''2024-02-10''" and b = "VStr ''2024-02-30''" and x = ValueError and s = "(naive 2024 2 10 0 0 0 0)\<lparr>tzinfo := Some 0\<rparr>"]
      extract_date_feb_10 extract_date_feb_30
    by simp
  from t1 d1 t2 d2 t3 t4 d3 d4 show ?thesis by blast
qed

section \<open>Ranges of calendar dates\<close>



















section \<open>The calendar\<close>

text \<open>Leap years and the step from one year to the next.\<close>

lemma mod_100_4:
  assumes "(y::int) mod 100 = 0"
  shows "y mod 4 = 0"
proof -
  have "(4::int) dvd 100" by simp
  moreover have "100 dvd y" using assms by (simp add: dvd_eq_mod_eq_0)
  ultimately have "4 dvd y" by (rule dvd_trans)
  then show ?thesis by (simp add: dvd_eq_mod_eq_0)
qed

lemma mod_400_100:
  assumes "(y::int) mod 400 = 0"
  shows "y mod 100 = 0"
proof -
  have "(100::int) dvd 400" by simp
  moreover have "400 dvd y" using assms by (simp add: dvd_eq_mod_eq_0)
  ultimately have "100 dvd y" by (rule dvd_trans)
  then show ?thesis by (simp add: dvd_eq_mod_eq_0)
qed

lemma div_next:
  fixes z :: int
  assumes "0 < k"
  shows "(z + 1) div k = z div k + (if (z + 1) mod k = 0 then 1 else 0)"
proof (cases "(z + 1) mod k = 0")
  case True
  then obtain q where q: "z + 1 = k * q" by (auto simp: mod_eq_0_iff_dvd)
  then have z: "z = k * (q - 1) + (k - 1)" by (simp add: algebra_simps)
  have "z div k = q - 1"
    by (subst z) (use assms in \<open>simp add: div_pos_pos_trivial\<close>)
  moreover have "(z + 1) div k = q" using q assms by simp
  ultimately show ?thesis using True by simp
next
  case False
  define r where "r = (z + 1) mod k"
  define q where "q = (z + 1) div k"
  have "0 \<le> r" "r \<noteq> 0" "r < k"
    using False assms by (simp_all add: r_def)
  then have r: "0 < r" "r < k" by simp_all
  have "z + 1 = k * q + r" by (simp add: q_def r_def)
  then have z: "z = k * q + (r - 1)" by simp
  have "z div k = q"
    by (subst z) (use r assms in \<open>simp add: div_pos_pos_trivial\<close>)
  then show ?thesis using False by (simp add: q_def)
qed


lemma next_year_linear:
  fixes A B :: int
  assumes "A = y * 365 + p4 - p100 + p400"
    and "B = (y - 1) * 365 + q4 - q100 + q400"
    and "p4 = q4 + d4" and "p100 = q100 + d100" and "p400 = q400 + d400"
  shows "A = B + 365 + d4 - d100 + d400"
  using assms by (simp add: algebra_simps)

lemma leap_count:
  assumes "P100 \<Longrightarrow> P4" and "P400 \<Longrightarrow> P100"
  shows "(if P4 then 1 else 0) - (if P100 then 1 else 0) + (if P400 then 1 else (0::int))
           = (if P4 \<and> (\<not> P100 \<or> P400) then 1 else 0)"
  using assms by auto

lemma next_year_combine:
  fixes A B :: int
  assumes "A = B + 365 + d4 - d100 + d400"
    and "d4 - d100 + d400 = (if L then 1 else 0)"
  shows "A = B + (if L then 366 else 365)"
  using assms by (cases L) simp_all

lemma days_before_next_year:
  "days_before_year (y + 1) = days_before_year y + (if isleap y then 366 else 365)"
proof -
  have a: "y div 4 = (y - 1) div 4 + (if y mod 4 = 0 then 1 else 0)"
    using div_next [of 4 "y - 1"] by simp
  have b: "y div 100 = (y - 1) div 100 + (if y mod 100 = 0 then 1 else 0)"
    using div_next [of 100 "y - 1"] by simp
  have c: "y div 400 = (y - 1) div 400 + (if y mod 400 = 0 then 1 else 0)"
    using div_next [of 400 "y - 1"] by simp
  have d: "days_before_year (y + 1) = y * 365 + y div 4 - y div 100 + y div 400"
    by (simp add: days_before_year_def)
  have e: "days_before_year y = (y - 1) * 365 + (y - 1) div 4 - (y - 1) div 100 + (y - 1) div 400"
    by (simp add: days_before_year_def Let_def)
  have cnt: "(if y mod 4 = 0 then 1 else 0) - (if y mod 100 = 0 then 1 else 0)
               + (if y mod 400 = 0 then 1 else (0::int)) = (if isleap y then 1 else 0)"
    unfolding isleap_def
    by (rule leap_count [of "y mod 100 = 0" "y mod 4 = 0" "y mod 400 = 0"])
       (erule mod_100_4, erule mod_400_100)
  show ?thesis
    by (rule next_year_combine [OF next_year_linear [OF d e a b c] cnt])
qed

lemma upto_12: "[1..12::int] = [1, 2, 3, 4, 5, 6, 7, 8, 9, 10, 11, 12]"
  by code_simp

lemma month_cases:
  fixes m :: int
  assumes "1 \<le> m" and "m \<le> 12"
  shows "m = 1 \<or> m = 2 \<or> m = 3 \<or> m = 4 \<or> m = 5 \<or> m = 6 \<or> m = 7 \<or> m = 8
      \<or> m = 9 \<or> m = 10 \<or> m = 11 \<or> m = 12"
proof -
  from assms have "m \<in> set [1..12]" by simp
  then show ?thesis unfolding upto_12 by simp
qed

text \<open>
  The day count of a month is the distance between its first day and the first day of
  the following month.
\<close>

lemma days_in_month_is_distance:
  assumes "1 \<le> m" and "m \<le> 12"
  shows "ymd2ord y m 1 + days_in_month y m
           = (if m = 12 then ymd2ord (y + 1) 1 1 else ymd2ord y (m + 1) 1)"
  using month_cases [OF assms]
  by (elim disjE)
     (simp_all add: ymd2ord_def days_in_month_def days_before_month_def
       days_before_month_common_def mdays_def days_before_next_year)

section \<open>Month time frames\<close>

lemma days_in_month_bounds:
  assumes "1 \<le> m" and "m \<le> 12"
  shows "28 \<le> days_in_month y m \<and> days_in_month y m \<le> 31"
  using month_cases [OF assms]
  by (elim disjE) (simp_all add: days_in_month_def mdays_def)

text \<open>
  Claim C5. For a date string that the parser reads, \<open>get_month_timeframe\<close> returns
  the range from the first of the month of that date at 00:00:00 to the last day of
  that month at 23:59:59, both localized. The last day is the day count of that month
  in that year, 29 for February in a leap year: the day after it is the first of the
  following month. The hypotheses say that the parser returns a datetime, whose year
  is in \<open>MINYEAR .. MAXYEAR\<close> and whose month is in 1 to 12, and that the timezone
  gives both readings an offset.
\<close>

theorem get_month_timeframe_range:
  assumes "date = Some s" and "s \<noteq> []" and "parse s = Inr start"
    and "MINYEAR \<le> year start" and "year start \<le> MAXYEAR"
    and "1 \<le> month start" and "month start \<le> 12"
    and "tz_localize current (naive (year start) (month start) 1 0 0 0 0) = Some o1"
    and "tz_localize current
           (naive (year start) (month start) (days_in_month (year start) (month start))
              23 59 59 0) = Some o2"
  shows "get_month_timeframe parse current now date
           = Inr ((naive (year start) (month start) 1 0 0 0 0)\<lparr>tzinfo := Some o1\<rparr>,
                  (naive (year start) (month start)
                     (days_in_month (year start) (month start)) 23 59 59 0)
                    \<lparr>tzinfo := Some o2\<rparr>)
         \<and> ymd2ord (year start) (month start) (days_in_month (year start) (month start)) + 1
             = (if month start = 12 then ymd2ord (year start + 1) 1 1
                else ymd2ord (year start) (month start + 1) 1)
         \<and> days_in_month (year start) (month start)
             = (if month start = 2 then (if isleap (year start) then 29 else 28)
                else if month start \<in> {4, 6, 9, 11} then 30 else 31)"
proof -
  let ?y = "year start" and ?m = "month start"
  have b: "28 \<le> days_in_month ?y ?m \<and> days_in_month ?y ?m \<le> 31"
    using assms(6,7) by (rule days_in_month_bounds)
  have d1: "mk_datetime ?y ?m 1 0 0 0 0 = Inr (naive ?y ?m 1 0 0 0 0)"
    using assms(4-7) b by (simp add: mk_datetime_def valid_date_def valid_time_def)
  have mr: "monthrange ?y ?m = Inr (weekday_of ?y ?m 1, days_in_month ?y ?m)"
    using assms(4-7) by (simp add: monthrange_def days_in_month_def mdays_def)
  have d2: "mk_datetime ?y ?m (days_in_month ?y ?m) 23 59 59 0
              = Inr (naive ?y ?m (days_in_month ?y ?m) 23 59 59 0)"
    using assms(4-7) b by (simp add: mk_datetime_def valid_date_def valid_time_def)
  have l1: "localize current (naive ?y ?m 1 0 0 0 0) None
              = Inr ((naive ?y ?m 1 0 0 0 0)\<lparr>tzinfo := Some o1\<rparr>)"
    using assms(8) by (simp add: localize_def pytz_localize_def naive_def)
  have l2: "localize current (naive ?y ?m (days_in_month ?y ?m) 23 59 59 0) None
              = Inr ((naive ?y ?m (days_in_month ?y ?m) 23 59 59 0)\<lparr>tzinfo := Some o2\<rparr>)"
    using assms(9) by (simp add: localize_def pytz_localize_def naive_def)
  have r: "get_month_timeframe parse current now date
           = Inr ((naive ?y ?m 1 0 0 0 0)\<lparr>tzinfo := Some o1\<rparr>,
                  (naive ?y ?m (days_in_month ?y ?m) 23 59 59 0)\<lparr>tzinfo := Some o2\<rparr>)"
    by (simp add: get_month_timeframe_def assms(1-3) d1 l1 mr d2 l2)
  have n: "ymd2ord ?y ?m (days_in_month ?y ?m) + 1
             = (if ?m = 12 then ymd2ord (?y + 1) 1 1 else ymd2ord ?y (?m + 1) 1)"
    using days_in_month_is_distance [OF assms(6,7), of ?y] by (simp add: ymd2ord_def)
  have c: "days_in_month ?y ?m
             = (if ?m = 2 then (if isleap ?y then 29 else 28)
                else if ?m \<in> {4, 6, 9, 11} then 30 else 31)"
    by (simp add: days_in_month_def mdays_def)
  from r n c show ?thesis by blast
qed

text \<open>
  The date 10 February 2024, in a leap year: the range is 1 February 00:00:00 to
  29 February 23:59:59.
\<close>

theorem get_month_timeframe_range_witness:
  "get_month_timeframe iso_parse (fixed_tz 0) (naive 2024 3 15 12 0 0 0) (Some ''2024-02-10'')
     = Inr ((naive 2024 2 1 0 0 0 0)\<lparr>tzinfo := Some 0\<rparr>,
            (naive 2024 2 29 23 59 59 0)\<lparr>tzinfo := Some 0\<rparr>)"
proof -
  have p: "iso_parse ''2024-02-10'' = Inr (naive 2024 2 10 0 0 0 0)"
    by (simp add: iso_parse_def strptime_feb_10)
  have dim: "days_in_month 2024 2 = 29"
    by (simp add: days_in_month_def isleap_def)
  have f: "year (naive 2024 2 10 0 0 0 0) = 2024" "month (naive 2024 2 10 0 0 0 0) = 2"
    by (simp_all add: naive_def)
  from get_month_timeframe_range [of "Some ''2024-02-10''" "''2024-02-10''" iso_parse
      "naive 2024 2 10 0 0 0 0" "fixed_tz 0" 0 0 "naive 2024 3 15 12 0 0 0"] p
  show ?thesis
    by (simp add: f dim fixed_tz_def MINYEAR_def MAXYEAR_def)
qed

section \<open>Month lists\<close>

lemma add_months_0:
  assumes "1 \<le> m" and "m \<le> 12"
  shows "add_months y m 0 = (y, m)"
proof -
  have "(m - 1) div 12 = 0" "(m - 1) mod 12 = m - 1"
    using assms by (simp_all add: div_pos_pos_trivial mod_pos_pos_trivial)
  then show ?thesis by (simp add: add_months_def)
qed

lemma add_months_next:
  "add_months (if m \<ge> 12 then y + 1 else y) (if m \<ge> 12 then 1 else m + 1) k
     = (if m \<ge> 12 then add_months y 12 (k + 1) else add_months y m (k + 1))"
proof (cases "m \<ge> 12")
  case True
  have "(y + 1) * 12 + (1 - 1) + k = y * 12 + (12 - 1) + (k + 1)" by (simp add: algebra_simps)
  with True show ?thesis by (simp only: add_months_def if_True)
next
  case False
  have "y * 12 + (m + 1 - 1) + k = y * 12 + (m - 1) + (k + 1)" by simp
  with False show ?thesis by (simp only: add_months_def if_False)
qed

lemma add_months_step:
  assumes "m \<le> 12"
  shows "add_months (if m \<ge> 12 then y + 1 else y) (if m \<ge> 12 then 1 else m + 1) k
           = add_months y m (k + 1)"
proof (cases "m \<ge> 12")
  case True
  with assms have "m = 12" by simp
  with add_months_next [of m y k] show ?thesis by simp
next
  case False
  with add_months_next [of m y k] show ?thesis by simp
qed

text \<open>
  From a day that every month has, the rule yields one datetime for each of the
  next \<open>n\<close> months, as long as they end before the year passes \<open>MAXYEAR\<close>.
\<close>

lemma rrule_monthly_run:
  assumes d: "day dtstart \<le> 28"
  shows "1 \<le> m \<Longrightarrow> m \<le> 12 \<Longrightarrow> y * 12 + (m - 1) + int n \<le> MAXYEAR * 12 + 12 \<Longrightarrow>
         rrule_monthly y m dtstart (int n)
           = map (\<lambda>k. dtstart\<lparr>year := fst (add_months y m (int k)),
                                month := snd (add_months y m (int k)), microsecond := 0\<rparr>)
               [0..<n]"
proof (induction n arbitrary: y m)
  case 0
  show ?case by (subst rrule_monthly.simps) simp
next
  case (Suc n)
  let ?y' = "if m \<ge> 12 then y + 1 else y" and ?m' = "if m \<ge> 12 then 1 else m + 1"
  have yle: "y \<le> MAXYEAR"
    using Suc.prems by (simp add: MAXYEAR_def)
  have dim: "day dtstart \<le> days_in_month y m"
    using days_in_month_bounds [OF Suc.prems(1,2), of y] d by simp
  have step: "rrule_monthly y m dtstart (int (Suc n))
                = dtstart\<lparr>year := y, month := m, microsecond := 0\<rparr>
                    # rrule_monthly ?y' ?m' dtstart (int n)"
    by (subst rrule_monthly.simps) (use yle dim in \<open>simp add: Let_def\<close>)
  have m': "1 \<le> ?m'" "?m' \<le> 12"
    using Suc.prems by simp_all
  have bnd: "?y' * 12 + (?m' - 1) + int n \<le> MAXYEAR * 12 + 12"
    using Suc.prems by (simp add: MAXYEAR_def)
  have ih: "rrule_monthly ?y' ?m' dtstart (int n)
              = map (\<lambda>k. dtstart\<lparr>year := fst (add_months ?y' ?m' (int k)),
                                   month := snd (add_months ?y' ?m' (int k)),
                                   microsecond := 0\<rparr>) [0..<n]"
    using m' bnd by (rule Suc.IH)
  have shift: "add_months ?y' ?m' (int k) = add_months y m (int (Suc k))" for k
    using add_months_step [OF Suc.prems(2), of y "int k"] by (simp add: add.commute)
  have first: "add_months y m (int 0) = (y, m)"
    using add_months_0 [OF Suc.prems(1,2)] by simp
  show ?case
    unfolding step ih shift map_upt_Suc first by simp
qed

lemma localize_each_all:
  assumes "\<forall>t. tz_localize z t \<noteq> None"
  shows "\<forall>d\<in>set ds. tzinfo d = None \<Longrightarrow>
         localize_each z ds = Inr (map (\<lambda>d. d\<lparr>tzinfo := tz_localize z d\<rparr>) ds)"
proof (induction ds)
  case Nil
  show ?case by simp
next
  case (Cons d ds)
  from assms obtain off where off: "tz_localize z d = Some off" by fastforce
  from Cons.prems have "tzinfo d = None" by simp
  with off have "pytz_localize z d = Inr (d\<lparr>tzinfo := tz_localize z d\<rparr>)"
    by (simp add: pytz_localize_def)
  moreover from Cons have "localize_each z ds = Inr (map (\<lambda>d. d\<lparr>tzinfo := tz_localize z d\<rparr>) ds)"
    by simp
  ultimately show ?case by simp
qed

text \<open>
  Claim C4. Let \<open>since\<close> be a naive first of a month, not after the month of the
  current time \<open>now\<close>, and let the timezone give every reading an offset. Then
  \<open>month_list\<close> returns a list whose length is
  \<open>(year now - year since) * 12 + (month now - month since) + 1\<close>; its element \<open>i\<close>
  is \<open>since\<close> moved to the month \<open>i\<close> months before the current month, cut to whole
  seconds and localized. So the list runs backwards in time, one month at a step,
  from the first of the current month to the first of the starting month.
\<close>

theorem month_list_months:
  assumes naive: "tzinfo since = None" and first: "day since = 1"
    and ms: "1 \<le> month since" "month since \<le> 12"
    and mn: "1 \<le> month now" "month now \<le> 12"
    and yn: "year now \<le> MAXYEAR"
    and le: "year since * 12 + month since \<le> year now * 12 + month now"
    and tz: "\<forall>t. tz_localize current t \<noteq> None"
  shows "\<exists>xs. month_list current now now since = Inr xs
           \<and> int (length xs) = (year now - year since) * 12 + (month now - month since) + 1
           \<and> (\<forall>i<length xs.
                 xs ! i =
                   (let t = since\<lparr>year := fst (add_months (year now) (month now) (- int i)),
                                   month := snd (add_months (year now) (month now) (- int i)),
                                   microsecond := 0\<rparr>
                    in t\<lparr>tzinfo := tz_localize current t\<rparr>))
           \<and> year (xs ! 0) = year now \<and> month (xs ! 0) = month now \<and> day (xs ! 0) = 1
           \<and> year (last xs) = year since \<and> month (last xs) = month since
           \<and> day (last xs) = 1"
proof -
  define cnt where "cnt = (year now - year since) * 12 + (month now - month since) + 1"
  define n where "n = nat cnt"
  define g where "g = (\<lambda>k. since\<lparr>year := fst (add_months (year since) (month since) (int k)),
                              month := snd (add_months (year since) (month since) (int k)),
                              microsecond := 0\<rparr>)"
  define h where "h = (\<lambda>k. (g k)\<lparr>tzinfo := tz_localize current (g k)\<rparr>)"
  define xs where "xs = rev (map h [0..<n])"
  have cnt1: "1 \<le> cnt" using le by (simp add: cnt_def)
  then have n: "int n = cnt" "0 < n" by (simp_all add: n_def)
  have bnd: "year since * 12 + (month since - 1) + int n \<le> MAXYEAR * 12 + 12"
    using yn mn n(1) by (simp add: cnt_def)
  have run: "rrule_monthly (year since) (month since) since cnt = map g [0..<n]"
    unfolding g_def n(1) [symmetric]
    by (rule rrule_monthly_run) (use first ms bnd in simp_all)
  have "\<forall>d\<in>set (map g [0..<n]). tzinfo d = None"
    using naive by (simp add: g_def)
  from localize_each_all [OF tz this]
  have loc: "localize_each current (map g [0..<n]) = Inr (map h [0..<n])"
    by (simp add: h_def)
  have res: "month_list current now now since = Inr xs"
    unfolding month_list_def Let_def localize_list_def cnt_def [symmetric] run
    by (simp add: loc xs_def)
  have len: "int (length xs) = cnt" by (simp add: xs_def n(1))
  have nth: "xs ! i = h (n - 1 - i)" if "i < n" for i
    using that by (simp add: xs_def rev_nth)
  have bk: "add_months (year since) (month since) (int (n - 1 - i))
                = add_months (year now) (month now) (- int i)" if "i < n" for i
  proof -
    have "int (n - 1 - i) = cnt - 1 - int i" using that n(1) by simp
    then have "year since * 12 + (month since - 1) + int (n - 1 - i)
                 = year now * 12 + (month now - 1) + (- int i)"
      by (simp add: cnt_def)
    then show ?thesis by (simp only: add_months_def)
  qed
  have elem: "xs ! i =
                (let t = since\<lparr>year := fst (add_months (year now) (month now) (- int i)),
                                month := snd (add_months (year now) (month now) (- int i)),
                                microsecond := 0\<rparr>
                 in t\<lparr>tzinfo := tz_localize current t\<rparr>)" if "i < n" for i
    unfolding nth [OF that] h_def g_def bk [OF that] Let_def ..
  have a0: "add_months (year now) (month now) (- int 0) = (year now, month now)"
    using add_months_0 [OF mn] by simp
  have e0: "year (xs ! 0) = year now \<and> month (xs ! 0) = month now \<and> day (xs ! 0) = 1"
    unfolding elem [OF n(2)] a0 Let_def using first by simp
  have al: "add_months (year now) (month now) (- int (n - 1)) = (year since, month since)"
    using bk [of "n - 1"] n(2) add_months_0 [OF ms] by simp
  have lastx: "last xs = xs ! (n - 1)"
    using n(2) by (simp add: xs_def last_conv_nth)
  have el: "year (last xs) = year since \<and> month (last xs) = month since \<and> day (last xs) = 1"
    unfolding lastx using elem [of "n - 1"] n(2) al first by (simp add: Let_def)
  have all: "\<forall>i<length xs.
                 xs ! i =
                   (let t = since\<lparr>year := fst (add_months (year now) (month now) (- int i)),
                                   month := snd (add_months (year now) (month now) (- int i)),
                                   microsecond := 0\<rparr>
                    in t\<lparr>tzinfo := tz_localize current t\<rparr>)"
    using elem by (simp add: xs_def)
  from res len all e0 el show ?thesis unfolding cnt_def by blast
qed

text \<open>
  From November 2013 to a current time in March 2024: 125 months, the first element
  1 March 2024, the last 1 November 2013.
\<close>

theorem month_list_months_witness:
  "\<exists>xs. month_list (fixed_tz 0) (naive 2024 3 15 12 0 0 0) (naive 2024 3 15 12 0 0 0)
          default_since = Inr xs
        \<and> length xs = 125
        \<and> year (xs ! 0) = 2024 \<and> month (xs ! 0) = 3 \<and> day (xs ! 0) = 1
        \<and> year (last xs) = 2013 \<and> month (last xs) = 11 \<and> day (last xs) = 1"
proof -
  let ?now = "naive 2024 3 15 12 0 0 0"
  have "tzinfo default_since = None" "day default_since = 1"
    "1 \<le> month default_since" "month default_since \<le> 12"
    "1 \<le> month ?now" "month ?now \<le> 12" "year ?now \<le> MAXYEAR"
    "year default_since * 12 + month default_since \<le> year ?now * 12 + month ?now"
    "\<forall>t. tz_localize (fixed_tz 0) t \<noteq> None"
    by (simp_all add: default_since_def naive_def MAXYEAR_def fixed_tz_def)
  from month_list_months [OF this]
  obtain xs where xs: "month_list (fixed_tz 0) ?now ?now default_since = Inr xs"
    and len: "int (length xs)
                = (year ?now - year default_since) * 12 + (month ?now - month default_since) + 1"
    and ends: "year (xs ! 0) = year ?now" "month (xs ! 0) = month ?now" "day (xs ! 0) = 1"
      "year (last xs) = year default_since" "month (last xs) = month default_since"
      "day (last xs) = 1"
    by blast
  from len have "length xs = 125" by (simp add: default_since_def naive_def)
  with xs ends show ?thesis by (simp add: default_since_def naive_def)
qed

end
